theory Spec2Isabelle
  imports Main "HOL-Library.Sublist"
begin

section \<open>Python values used by the exam planner\<close>

text \<open>
  Strings are lists of characters.  A \<^typ>\<open>char\<close> stands for one code point below 256;
  the registrar's listings are plain ASCII.  The string methods below follow Python's
  \<^verbatim>\<open>str\<close> methods on that range.
\<close>

definition isspace :: "char \<Rightarrow> bool" where
  \<comment> \<open>\<^verbatim>\<open>str.isspace\<close> below 256: TAB, LF, VT, FF, CR, FS, GS, RS, US, SPACE, NEL, NBSP.\<close>
  "isspace c = ((of_char c :: nat) \<in> {9, 10, 11, 12, 13, 28, 29, 30, 31, 32, 133, 160})"

definition lower_char :: "char \<Rightarrow> char" where
  \<comment> \<open>\<^verbatim>\<open>A-Z\<close> and the Latin-1 capitals (all of 192..222 but the multiplication sign).\<close>
  "lower_char c =
     (let n = (of_char c :: nat)
      in if (65 \<le> n \<and> n \<le> 90) \<or> (192 \<le> n \<and> n \<le> 222 \<and> n \<noteq> 215)
         then char_of (n + 32) else c)"

definition str_lower :: "string \<Rightarrow> string" where
  "str_lower s = map lower_char s"

definition str_strip :: "string \<Rightarrow> string" where
  "str_strip s = rev (dropWhile isspace (rev (dropWhile isspace s)))"

text \<open>
  \<^verbatim>\<open>s.split()\<close> with no argument: the maximal runs of non-whitespace characters, in
  order.  \<open>split_from cur s\<close> scans \<open>s\<close> with the token read so far in \<open>cur\<close>.
\<close>

fun split_from :: "string \<Rightarrow> string \<Rightarrow> string list" where
  "split_from cur [] = (if cur = [] then [] else [cur])"
| "split_from cur (c # cs) =
     (if isspace c
      then (if cur = [] then split_from [] cs else cur # split_from [] cs)
      else split_from (cur @ [c]) cs)"

definition str_split :: "string \<Rightarrow> string list" where
  "str_split s = split_from [] s"

definition str_startswith :: "string \<Rightarrow> string \<Rightarrow> bool" where
  "str_startswith s p = prefix p s"

fun str_join :: "string \<Rightarrow> string list \<Rightarrow> string" where
  "str_join sep [] = []"
| "str_join sep [x] = x"
| "str_join sep (x # y # ys) = x @ sep @ str_join sep (y # ys)"

definition str_replace :: "char \<Rightarrow> char \<Rightarrow> string \<Rightarrow> string" where
  \<comment> \<open>\<^verbatim>\<open>s.replace(a, b)\<close> for one-character \<open>a\<close> and \<open>b\<close>.\<close>
  "str_replace a b s = map (\<lambda>c. if c = a then b else c) s"

text \<open>Exceptions are values: every \<^verbatim>\<open>raise\<close> of the source is an \<open>Inl\<close>.\<close>

datatype py_error =
    ValueError string
  | IndexError
  | TypeError
  | AttributeError
  | AssertionError
  | FileNotFoundError
  | OSError
  | RequestException
  | HTTPError
  | OperationalError
  | ProgrammingError
  | IntegrityError
  | InternalError

definition bnd :: "'e + 'a \<Rightarrow> ('a \<Rightarrow> 'e + 'b) \<Rightarrow> 'e + 'b" where
  "bnd r f = (case r of Inl e \<Rightarrow> Inl e | Inr x \<Rightarrow> f x)"

definition item :: "'a list \<Rightarrow> nat \<Rightarrow> py_error + 'a" where
  \<comment> \<open>\<^verbatim>\<open>xs[i]\<close> for \<open>i \<ge> 0\<close>: out of range raises.\<close>
  "item xs i = (if i < length xs then Inr (xs ! i) else Inl IndexError)"

definition slice :: "'a list \<Rightarrow> nat \<Rightarrow> nat \<Rightarrow> 'a list" where
  \<comment> \<open>\<^verbatim>\<open>xs[i:j]\<close> for \<open>0 \<le> i \<le> j\<close>: never raises.\<close>
  "slice xs i j = take (j - i) (drop i xs)"

definition slice_from :: "'a list \<Rightarrow> nat \<Rightarrow> 'a list" where
  \<comment> \<open>\<^verbatim>\<open>xs[i:]\<close>\<close>
  "slice_from xs i = drop i xs"

text \<open>A dictionary literal is the list of its items, in the order written.\<close>

type_synonym exam_dict = "(string \<times> string) list"

section \<open>webscrape.py: parsing the exam listing\<close>

text \<open>
  The body of the \<^verbatim>\<open>for line in file\<close> loop of \<^verbatim>\<open>parse_exam_file\<close>.  The result is
  \<open>Inr None\<close> where the loop says \<^verbatim>\<open>continue\<close>, \<open>Inr (Some d)\<close> where it appends \<open>d\<close>
  and \<open>Inl e\<close> where it raises.
\<close>

definition parse_exam_line :: "string \<Rightarrow> string \<Rightarrow> string \<Rightarrow> py_error + exam_dict option" where
  "parse_exam_line semester exam_type line0 =
    (let line = str_strip line0 in
     if str_startswith line semester \<or> line = [] then Inr None
     else
      let parts = str_split line in
      if str_lower exam_type = ''prelim'' then
        bnd (item parts 2) (\<lambda>third.
        bnd (if length third = 3
             then
               bnd (item parts 0) (\<lambda>p0. bnd (item parts 1) (\<lambda>p1. bnd (item parts 2) (\<lambda>p2.
               bnd (item parts 3) (\<lambda>p3.
                 Inr (p0 @ '' '' @ p1 @ '' '' @ p2, p3, str_join '' '' (slice_from parts 4))))))
             else
               bnd (item parts 0) (\<lambda>p0. bnd (item parts 1) (\<lambda>p1. bnd (item parts 2) (\<lambda>p2.
                 Inr (p0 @ '' '' @ p1, p2, str_join '' '' (slice_from parts 3))))))
          (\<lambda>(course_code, exam_date, exam_locations).
            Inr (Some [(''course_code'', str_strip course_code),
                       (''exam_date'', str_strip exam_date),
                       (''exam_locations'', str_strip exam_locations)])))
      else if str_lower exam_type = ''final'' then
        bnd (item parts 2) (\<lambda>third.
        bnd (if length third = 3
             then
               bnd (item parts 0) (\<lambda>p0. bnd (item parts 1) (\<lambda>p1. bnd (item parts 2) (\<lambda>p2.
               bnd (item parts 3) (\<lambda>p3.
                 Inr (p0 @ '' '' @ p1 @ '' '' @ p2, p3,
                      str_join '' '' (slice parts 4 6),
                      str_join '' '' (slice parts 6 8),
                      str_join '' '' (slice_from parts 8))))))
             else
               bnd (item parts 0) (\<lambda>p0. bnd (item parts 1) (\<lambda>p1. bnd (item parts 2) (\<lambda>p2.
                 Inr (p0 @ '' '' @ p1, p2,
                      str_join '' '' (slice parts 3 5),
                      str_join '' '' (slice parts 5 7),
                      str_join '' '' (slice_from parts 7))))))
          (\<lambda>(course_code, exam_date, exam_time, test_type, exam_locations).
            Inr (Some [(''course_code'', str_strip course_code),
                       (''exam_date'', str_strip exam_date),
                       (''exam_time'', str_strip exam_time),
                       (''test_type'', str_strip test_type),
                       (''exam_locations'', str_strip exam_locations)])))
      else Inl (ValueError ''Unknown Exam Type''))"

text \<open>
  The loop itself: \<open>formatted_data\<close> is the list built so far; an exception raised by a
  line ends the call.
\<close>

fun parse_exam_loop ::
  "string \<Rightarrow> string \<Rightarrow> exam_dict list \<Rightarrow> string list \<Rightarrow> py_error + exam_dict list" where
  "parse_exam_loop semester exam_type formatted_data [] = Inr formatted_data"
| "parse_exam_loop semester exam_type formatted_data (line # file) =
     (case parse_exam_line semester exam_type line of
        Inl e \<Rightarrow> Inl e
      | Inr None \<Rightarrow> parse_exam_loop semester exam_type formatted_data file
      | Inr (Some formatted_exam) \<Rightarrow>
          parse_exam_loop semester exam_type (formatted_data @ [formatted_exam]) file)"

definition parse_exam_file :: "string \<Rightarrow> string \<Rightarrow> string list \<Rightarrow> py_error + exam_dict list" where
  \<comment> \<open>\<open>file\<close> is the sequence of lines the file object yields.\<close>
  "parse_exam_file semester exam_type file = parse_exam_loop semester exam_type [] file"

text \<open>
  The loop's \<^verbatim>\<open>continue\<close> test, named for the statements below: a line is skipped
  when, stripped, it starts with the semester label or is empty.
\<close>

definition is_skipped :: "string \<Rightarrow> string \<Rightarrow> bool" where
  "is_skipped semester line = (str_startswith (str_strip line) semester \<or> str_strip line = [])"

text \<open>A token: what \<^verbatim>\<open>split()\<close> returns, non-empty and free of whitespace.\<close>

definition token :: "string \<Rightarrow> bool" where
  "token t = (t \<noteq> [] \<and> (\<forall>c\<in>set t. \<not> isspace c))"

section \<open>The world outside the program\<close>

text \<open>
  The program talks to a web server (through \<^verbatim>\<open>requests\<close> and \<^verbatim>\<open>BeautifulSoup\<close>), to
  the file system, to standard output and to a PostgreSQL connection (through
  \<^verbatim>\<open>psycopg2\<close>).  They are one value, \<open>world\<close>, passed to every method and returned
  changed.  A method returns its result, or the exception it raises, together with the
  object and the world as they are at that moment: what was changed before a
  \<^verbatim>\<open>raise\<close> stays changed.
\<close>

subsection \<open>The page\<close>

text \<open>
  Of the parsed page only what \<^verbatim>\<open>parse_html\<close> asks for is kept: \<open>h2_text\<close> is the text
  of \<^verbatim>\<open>soup.find('div', class_='content').find('div').find('h2')\<close>, \<open>None\<close> when one of
  the three \<^verbatim>\<open>find\<close>s returns \<^verbatim>\<open>None\<close>; \<open>pre_element\<close> is the first \<^verbatim>\<open>pre\<close> element,
  with the text of its first \<^verbatim>\<open>strong\<close> child and the text that
  \<^verbatim>\<open>get_text(strip=True)\<close> returns once that child is extracted.
\<close>

record pre =
  strong_text :: "string option"
  rest_text :: string

record soup =
  h2_text :: "string option"
  pre_element :: "pre option"

record response =
  status_code :: nat
  content :: soup

subsection \<open>The database\<close>

text \<open>
  The statements the manager builds as text are kept in structured form.  An
  identifier is written bare or in double quotes, as in the text; a column definition
  is the list of words between two commas.  \<open>%s\<close> placeholders are counted, and the
  parameters travel beside the statement as in \<^verbatim>\<open>cur.execute(query, params)\<close>; a
  parameter is a string or \<^verbatim>\<open>None\<close>.
\<close>

datatype sql_ident = Bare string | Quoted string

datatype sql =
    CreateTableIfNotExists sql_ident "string list list"
  | InsertInto sql_ident "string list" nat
  | UpdateSetWhere sql_ident "string list" string
  | SelectAllWhere sql_ident string

record table =
  t_columns :: "string list"
  t_rows :: "string list list"

type_synonym tables = "string \<Rightarrow> table option"

text \<open>
  A connection: the tables as committed, the tables as the open transaction sees them,
  whether the open transaction is in the failed state, and what the server and the
  network will do to the next calls (\<open>Some e\<close>: the call raises \<open>e\<close>).
\<close>

record database =
  db_committed :: tables
  db_working :: tables
  db_aborted :: bool
  db_faults :: "py_error option list"

definition ident_char :: "char \<Rightarrow> bool" where
  "ident_char c =
     (let n = (of_char c :: nat)
      in (65 \<le> n \<and> n \<le> 90) \<or> (97 \<le> n \<and> n \<le> 122) \<or> (48 \<le> n \<and> n \<le> 57) \<or> n = 95 \<or> n = 36)"

definition ident_start :: "char \<Rightarrow> bool" where
  "ident_start c =
     (let n = (of_char c :: nat)
      in (65 \<le> n \<and> n \<le> 90) \<or> (97 \<le> n \<and> n \<le> 122) \<or> n = 95)"

definition plain_identifier :: "string \<Rightarrow> bool" where
  "plain_identifier s = (case s of [] \<Rightarrow> False | c # cs \<Rightarrow> ident_start c \<and> list_all ident_char cs)"

text \<open>
  PostgreSQL folds a bare identifier to lower case and takes a quoted one as it is.
  Bare text that is not one plain identifier is a syntax error here (\<open>None\<close>).
\<close>

definition resolve :: "sql_ident \<Rightarrow> string option" where
  "resolve i =
     (case i of
        Bare s \<Rightarrow> if plain_identifier s then Some (str_lower s) else None
      | Quoted s \<Rightarrow> if s = [] then None else Some s)"

definition column_of_definition :: "string list \<Rightarrow> string option" where
  \<comment> \<open>The only column definition the server is sent well-formed: \<open>name TEXT NOT NULL\<close>.\<close>
  "column_of_definition ws =
     (case ws of
        [c, ty, n1, n2] \<Rightarrow>
          if plain_identifier c \<and> ty = ''TEXT'' \<and> n1 = ''NOT'' \<and> n2 = ''NULL''
          then Some (str_lower c) else None
      | _ \<Rightarrow> None)"

fun index_of :: "'a \<Rightarrow> 'a list \<Rightarrow> nat option" where
  "index_of x [] = None"
| "index_of x (y # ys) = (if x = y then Some 0 else map_option Suc (index_of x ys))"

definition cell :: "string list \<Rightarrow> string list \<Rightarrow> string \<Rightarrow> string option" where
  \<comment> \<open>the value of column \<open>c\<close> in a row of a table with columns \<open>cols\<close>\<close>
  "cell cols row c = (case index_of c cols of None \<Rightarrow> None | Some i \<Rightarrow> Some (row ! i))"

definition assigned :: "string list \<Rightarrow> string option list \<Rightarrow> string \<Rightarrow> string option" where
  \<comment> \<open>the parameter bound to column \<open>c\<close>; \<open>None\<close> when it is not listed or is \<open>NULL\<close>\<close>
  "assigned cols params c =
     (case index_of c cols of None \<Rightarrow> None | Some i \<Rightarrow> params ! i)"

text \<open>
  What the server does with one statement, on the tables of the open transaction.  All
  columns are \<open>TEXT NOT NULL\<close> without default, so a row needs a string for every
  column.  Errors of the statement are \<open>ProgrammingError\<close> (syntax, unknown table or
  column) and \<open>IntegrityError\<close> (a \<open>NULL\<close> in a column).
\<close>

definition run_sql :: "sql \<Rightarrow> string option list \<Rightarrow> tables \<Rightarrow> py_error + string list list \<times> tables" where
  "run_sql q params tabs =
     (case q of
        CreateTableIfNotExists i defs \<Rightarrow>
          (case resolve i of
             None \<Rightarrow> Inl ProgrammingError
           | Some name \<Rightarrow>
               let cols = map column_of_definition defs in
               if defs = [] \<or> None \<in> set cols \<or> \<not> distinct cols then Inl ProgrammingError
               else if tabs name \<noteq> None then Inr ([], tabs)
               else Inr ([], tabs(name \<mapsto> \<lparr>t_columns = map the cols, t_rows = []\<rparr>)))
      | InsertInto i cols n \<Rightarrow>
          (case resolve i of
             None \<Rightarrow> Inl ProgrammingError
           | Some name \<Rightarrow>
               (case tabs name of
                  None \<Rightarrow> Inl ProgrammingError
                | Some t \<Rightarrow>
                    let cs = map str_lower cols in
                    if \<not> list_all plain_identifier cols \<or> \<not> distinct cs \<or> length cs \<noteq> n
                       \<or> \<not> set cs \<subseteq> set (t_columns t)
                    then Inl ProgrammingError
                    else
                      let row = map (assigned cs params) (t_columns t) in
                      if None \<in> set row then Inl IntegrityError
                      else Inr ([], tabs(name \<mapsto> t\<lparr>t_rows := t_rows t @ [map the row]\<rparr>))))
      | UpdateSetWhere i cols wcol \<Rightarrow>
          (case resolve i of
             None \<Rightarrow> Inl ProgrammingError
           | Some name \<Rightarrow>
               (case tabs name of
                  None \<Rightarrow> Inl ProgrammingError
                | Some t \<Rightarrow>
                    let cs = map str_lower cols; wc = str_lower wcol in
                    if \<not> list_all plain_identifier (wcol # cols) \<or> \<not> distinct cs
                       \<or> \<not> set (wc # cs) \<subseteq> set (t_columns t)
                    then Inl ProgrammingError
                    else
                      let hit = (\<lambda>row. params ! length cs \<noteq> None
                                   \<and> cell (t_columns t) row wc = params ! length cs) in
                      if (\<exists>row \<in> set (t_rows t). hit row) \<and> None \<in> set (take (length cs) params)
                      then Inl IntegrityError
                      else
                        let new = (\<lambda>row. map (\<lambda>c. case assigned cs params c of
                                                     Some v \<Rightarrow> v | None \<Rightarrow> the (cell (t_columns t) row c))
                                           (t_columns t)) in
                        Inr ([], tabs(name \<mapsto>
                               t\<lparr>t_rows := map (\<lambda>row. if hit row then new row else row) (t_rows t)\<rparr>))))
      | SelectAllWhere i wcol \<Rightarrow>
          (case resolve i of
             None \<Rightarrow> Inl ProgrammingError
           | Some name \<Rightarrow>
               (case tabs name of
                  None \<Rightarrow> Inl ProgrammingError
                | Some t \<Rightarrow>
                    let wc = str_lower wcol in
                    if \<not> plain_identifier wcol \<or> wc \<notin> set (t_columns t) then Inl ProgrammingError
                    else Inr (filter (\<lambda>row. params ! 0 \<noteq> None
                                 \<and> cell (t_columns t) row wc = params ! 0) (t_rows t), tabs))))"

definition placeholders :: "sql \<Rightarrow> nat" where
  "placeholders q =
     (case q of
        CreateTableIfNotExists i defs \<Rightarrow> 0
      | InsertInto i cols n \<Rightarrow> n
      | UpdateSetWhere i cols wcol \<Rightarrow> length cols + 1
      | SelectAllWhere i wcol \<Rightarrow> 1)"

text \<open>
  \<^verbatim>\<open>cur.execute(query, params)\<close>.  \<^verbatim>\<open>psycopg2\<close> first fills the placeholders and raises
  by itself when their number is not that of the parameters.  Then the next entry of
  \<open>db_faults\<close> decides whether the call fails for a reason outside the statement; a
  statement sent in a failed transaction is refused (\<open>InternalError\<close>); a statement
  that fails puts the transaction in the failed state.
\<close>

definition db_execute :: "sql \<Rightarrow> string option list \<Rightarrow> database \<Rightarrow> (py_error + string list list) \<times> database" where
  "db_execute q params d =
     (if length params < placeholders q then (Inl IndexError, d)
      else if placeholders q < length params then (Inl TypeError, d)
      else
        let d1 = d\<lparr>db_faults := tl (db_faults d)\<rparr> in
        case db_faults d of
          Some e # fs \<Rightarrow> (Inl e, d1\<lparr>db_aborted := True\<rparr>)
        | _ \<Rightarrow>
            if db_aborted d then (Inl InternalError, d1)
            else (case run_sql q params (db_working d) of
                    Inl e \<Rightarrow> (Inl e, d1\<lparr>db_aborted := True\<rparr>)
                  | Inr (result, tabs) \<Rightarrow> (Inr result, d1\<lparr>db_working := tabs\<rparr>)))"

text \<open>
  \<^verbatim>\<open>conn.commit()\<close>: a failed transaction is rolled back, any other is made durable.
\<close>

definition db_commit :: "database \<Rightarrow> (py_error + unit) \<times> database" where
  "db_commit d =
     (let d1 = d\<lparr>db_faults := tl (db_faults d)\<rparr> in
      case db_faults d of
        Some e # fs \<Rightarrow> (Inl e, d1)
      | _ \<Rightarrow>
          if db_aborted d
          then (Inr (), d1\<lparr>db_working := db_committed d, db_aborted := False\<rparr>)
          else (Inr (), d1\<lparr>db_committed := db_working d\<rparr>))"

subsection \<open>Files, output and the whole world\<close>

text \<open>
  A line printed is its text and, where the text ends with an exception formatted by
  \<^verbatim>\<open>{e}\<close>, that exception.
\<close>

type_synonym log_line = "string \<times> py_error option"

record world =
  w_http :: "string \<Rightarrow> py_error + response"
  w_files :: "string \<Rightarrow> string option"
  w_write_error :: "string \<Rightarrow> py_error option"
  w_stdout :: "log_line list"
  w_db :: database

definition print :: "log_line \<Rightarrow> world \<Rightarrow> world" where
  "print l w = w\<lparr>w_stdout := w_stdout w @ [l]\<rparr>"

text \<open>
  Reading a text file line by line: \<^verbatim>\<open>open(path, 'r')\<close> turns \<open>CR LF\<close> and \<open>CR\<close> into
  \<open>LF\<close>, and the file object yields the lines with their \<open>LF\<close>.
\<close>

fun translate_newlines :: "string \<Rightarrow> string" where
  "translate_newlines [] = []"
| "translate_newlines [c] = [if c = char_of (13 :: nat) then char_of (10 :: nat) else c]"
| "translate_newlines (c # d # cs) =
     (if c = char_of (13 :: nat) \<and> d = char_of (10 :: nat)
      then char_of (10 :: nat) # translate_newlines cs
      else if c = char_of (13 :: nat) then char_of (10 :: nat) # translate_newlines (d # cs)
      else c # translate_newlines (d # cs))"

fun lines_from :: "string \<Rightarrow> string \<Rightarrow> string list" where
  "lines_from cur [] = (if cur = [] then [] else [cur])"
| "lines_from cur (c # cs) =
     (if c = char_of (10 :: nat) then (cur @ [c]) # lines_from [] cs
      else lines_from (cur @ [c]) cs)"

definition file_lines :: "string \<Rightarrow> string list" where
  "file_lines text = lines_from [] (translate_newlines text)"

text \<open>A value that may also be the \<^verbatim>\<open>False\<close> the methods return on failure.\<close>

datatype 'a or_bool = Value 'a | Bool bool

definition fmt :: "string option \<Rightarrow> string" where
  \<comment> \<open>how an f-string renders an optional string\<close>
  "fmt x = (case x of None \<Rightarrow> ''None'' | Some s \<Rightarrow> s)"

section \<open>webscrape.py: the scraper\<close>

record scraper =
  ws_semester :: string
  ws_exam_type :: string
  ws_file_name :: "string option"
  ws_exam_data_header :: "string option"
  ws_year :: "string option"

definition base_url :: string where
  "base_url = ''https://registrar.cornell.edu/exams/''"

definition ws_error_response :: "log_line \<Rightarrow> world \<Rightarrow> bool \<times> world" where
  "ws_error_response error w = (False, print error w)"

definition ws_success_response :: "log_line \<Rightarrow> world \<Rightarrow> bool \<times> world" where
  "ws_success_response message w = (True, print message w)"

definition generate_url :: "scraper \<Rightarrow> string" where
  "generate_url self =
     (let semester_param = str_replace CHR '' '' CHR ''-'' (str_lower (ws_semester self));
          exam_type_param = str_replace CHR '' '' CHR ''-'' (str_lower (ws_exam_type self))
      in base_url @ semester_param @ ''-'' @ exam_type_param @ ''-exam-schedule'')"

text \<open>
  \<^verbatim>\<open>open(file_name, 'w')\<close> and \<^verbatim>\<open>f.write(data)\<close>: the world says whether the file can
  be written; every exception is caught.
\<close>

definition save_to_text_file :: "string \<Rightarrow> string \<Rightarrow> world \<Rightarrow> (py_error + bool) \<times> world" where
  "save_to_text_file file_name data w =
     (case w_write_error w file_name of
        None \<Rightarrow>
          (let (b, w') = ws_success_response (''Data saved to '' @ file_name, None)
                           (w\<lparr>w_files := (w_files w)(file_name \<mapsto> data)\<rparr>)
           in (Inr b, w'))
      | Some e \<Rightarrow>
          (let (b, w') = ws_error_response (''Error saving data to file: '', Some e) w
           in (Inr b, w')))"

definition filename :: "string \<Rightarrow> string \<Rightarrow> string \<Rightarrow> string" where
  \<comment> \<open>the \<^verbatim>\<open>lambda sem, year, exam\<close> of \<^verbatim>\<open>parse_html\<close>\<close>
  "filename sem year exam = str_lower sem @ ''-'' @ year @ ''-'' @ str_lower exam @ ''-exams.txt''"

definition parse_html :: "scraper \<Rightarrow> soup \<Rightarrow> world \<Rightarrow> (py_error + string) \<times> scraper \<times> world" where
  "parse_html self sp w =
     (case h2_text sp of
        None \<Rightarrow> (Inl AttributeError, self, w)
      | Some semester_info \<Rightarrow>
     (case pre_element sp of
        None \<Rightarrow> (Inl AttributeError, self, w)
      | Some pre_el \<Rightarrow>
     (case strong_text pre_el of
        None \<Rightarrow> (Inl AttributeError, self, w)
      | Some strong \<Rightarrow>
          let self1 = self\<lparr>ws_exam_data_header := Some (str_strip strong)\<rparr>;
              exam_data = rest_text pre_el
          in
          (case item (str_split semester_info) 1 of
             Inl e \<Rightarrow> (Inl e, self1, w)
           | Inr y \<Rightarrow>
               let self2 = self1\<lparr>ws_year := Some y\<rparr>;
                   self3 = self2\<lparr>ws_file_name :=
                             Some (filename (ws_semester self2) y (ws_exam_type self2))\<rparr>;
                   (saved, w') = save_to_text_file (fmt (ws_file_name self3))
                                   (semester_info @ [char_of (10 :: nat)] @ exam_data) w
               in (Inr exam_data, self3, w')))))"

definition scrape_course_info :: "scraper \<Rightarrow> world \<Rightarrow> (py_error + string or_bool) \<times> scraper \<times> world" where
  "scrape_course_info self w =
     (let (r, self', w') =
            (case w_http w (generate_url self) of
               Inl e \<Rightarrow> (Inl e, self, w)
             | Inr resp \<Rightarrow>
                 if 400 \<le> status_code resp \<and> status_code resp < 600
                 then (Inl HTTPError, self, w)
                 else parse_html self (content resp) w)
      in case r of
           Inr exam_data \<Rightarrow> (Inr (Value exam_data), self', w')
         | Inl e \<Rightarrow>
             (let (b, w'') = ws_error_response (''Error scraping course information: '', Some e) w'
              in (Inr (Bool b), self', w'')))"

definition process_exam_data ::
  "scraper \<Rightarrow> string option \<Rightarrow> world \<Rightarrow> (py_error + exam_dict list or_bool) \<times> world" where
  "process_exam_data self filepath w =
     (case filepath of
        None \<Rightarrow> (Inl AssertionError, w)
      | Some path \<Rightarrow>
          (case w_files w path of
             None \<Rightarrow>
               (let (b, w') = ws_error_response
                                (''Error: File '' @ [CHR 0x27] @ path @ [CHR 0x27] @ '' not found.'', None) w
                in (Inr (Bool b), w'))
           | Some text \<Rightarrow>
               (case parse_exam_file (ws_semester self) (ws_exam_type self) (file_lines text) of
                  Inl e \<Rightarrow> (Inl e, w)
                | Inr formatted_data \<Rightarrow> (Inr (Value formatted_data), w))))"

section \<open>database.py: the store\<close>

record manager =
  dm_scraper :: scraper
  dm_table_name :: "string option"

definition dm_error_response :: "log_line \<Rightarrow> world \<Rightarrow> bool \<times> world" where
  "dm_error_response error w = (False, print (''Error: '' @ fst error, snd error) w)"

definition dm_success_response :: "string \<Rightarrow> world \<Rightarrow> bool \<times> world" where
  "dm_success_response message w = (True, print (''Success: '' @ message, None) w)"

definition set_exam_table_name :: "manager \<Rightarrow> string \<Rightarrow> manager" where
  "set_exam_table_name self name = self\<lparr>dm_table_name := Some name\<rparr>"

text \<open>
  The \<^verbatim>\<open>final\<close> statement has no comma between its fourth and fifth column, so its
  fourth column definition is eight words long.
\<close>

definition generate_create_table_query :: "string \<Rightarrow> string \<Rightarrow> py_error + sql" where
  "generate_create_table_query name exam_type =
     (if str_lower exam_type = ''prelim'' then
        Inr (CreateTableIfNotExists (Bare name)
          [[''course_code'', ''TEXT'', ''NOT'', ''NULL''],
           [''exam_date'', ''TEXT'', ''NOT'', ''NULL''],
           [''exam_locations'', ''TEXT'', ''NOT'', ''NULL'']])
      else if str_lower exam_type = ''final'' then
        Inr (CreateTableIfNotExists (Bare name)
          [[''course_code'', ''TEXT'', ''NOT'', ''NULL''],
           [''exam_date'', ''TEXT'', ''NOT'', ''NULL''],
           [''exam_time'', ''TEXT'', ''NOT'', ''NULL''],
           [''test_type'', ''TEXT'', ''NOT'', ''NULL'', ''exam_locations'', ''TEXT'', ''NOT'', ''NULL'']])
      else Inl (ValueError ''Unknown exam type''))"

definition generate_insert_exam_query :: "string \<Rightarrow> string \<Rightarrow> py_error + sql" where
  "generate_insert_exam_query name exam_type =
     (if str_lower exam_type = ''prelim'' then
        Inr (InsertInto (Bare name) [''course_code'', ''exam_date'', ''exam_locations''] 3)
      else if str_lower exam_type = ''final'' then
        Inr (InsertInto (Bare name)
          [''course_code'', ''exam_date'', ''exam_time'', ''exam_or_deliverable'', ''exam_locations''] 5)
      else Inl (ValueError ''Unknown exam type''))"

definition generate_update_exam_query :: "string \<Rightarrow> string \<Rightarrow> py_error + sql" where
  "generate_update_exam_query name exam_type =
     (if str_lower exam_type = ''prelim'' then
        Inr (UpdateSetWhere (Bare name) [''exam_date'', ''exam_locations''] ''course_code'')
      else if str_lower exam_type = ''final'' then
        Inr (UpdateSetWhere (Bare name)
          [''exam_date'', ''exam_time'', ''exam_or_deliverable'', ''exam_locations''] ''course_code'')
      else Inl (ValueError ''Unknown exam type''))"

text \<open>
  \<^verbatim>\<open>except OperationalError as e: return self.error_response(...)\<close>: of what the
  \<^verbatim>\<open>try\<close> block raises only \<open>OperationalError\<close> is caught; anything else goes on to
  the caller.
\<close>

definition except_OperationalError ::
  "string \<Rightarrow> 'a \<Rightarrow> (py_error + 'a) \<times> world \<Rightarrow> (py_error + 'a) \<times> world" where
  "except_OperationalError message false r =
     (case r of
        (Inl e, w) \<Rightarrow>
          if e = OperationalError
          then (let (b, w') = dm_error_response (message, Some e) w in (Inr false, w'))
          else (Inl e, w)
      | (Inr x, w) \<Rightarrow> (Inr x, w))"

text \<open>
  \<^verbatim>\<open>cur.execute(...)\<close> followed by \<^verbatim>\<open>self.conn.commit()\<close> inside one
  \<^verbatim>\<open>with self.conn.cursor()\<close> block.
\<close>

definition execute_commit :: "sql \<Rightarrow> string option list \<Rightarrow> world \<Rightarrow> (py_error + string list list) \<times> world" where
  "execute_commit q params w =
     (case db_execute q params (w_db w) of
        (Inl e, d) \<Rightarrow> (Inl e, w\<lparr>w_db := d\<rparr>)
      | (Inr result, d) \<Rightarrow>
          (case db_commit d of
             (Inl e, d') \<Rightarrow> (Inl e, w\<lparr>w_db := d'\<rparr>)
           | (Inr u, d') \<Rightarrow> (Inr result, w\<lparr>w_db := d'\<rparr>)))"

definition create_exam_table ::
  "manager \<Rightarrow> string \<Rightarrow> string \<Rightarrow> string option \<Rightarrow> world \<Rightarrow> (py_error + bool) \<times> manager \<times> world" where
  "create_exam_table self semester exam_type year w =
     (let self1 = set_exam_table_name self (semester @ ''_'' @ fmt year @ ''_'' @ exam_type @ ''_exams'');
          (r, w') =
            except_OperationalError ''Error creating table in PostgreSQL: '' False
              (case generate_create_table_query (fmt (dm_table_name self1)) exam_type of
                 Inl e \<Rightarrow> (Inl e, w)
               | Inr q \<Rightarrow>
                   (case execute_commit q [] w of
                      (Inl e, w1) \<Rightarrow> (Inl e, w1)
                    | (Inr result, w1) \<Rightarrow>
                        (let (b, w2) = dm_success_response ''Table created successfully!'' w1
                         in (Inr b, w2))))
      in (r, self1, w'))"

definition insert_exam ::
  "manager \<Rightarrow> string option \<Rightarrow> string option \<Rightarrow> string option \<Rightarrow> string \<Rightarrow>
     string option \<Rightarrow> string option \<Rightarrow> world \<Rightarrow> (py_error + bool) \<times> world" where
  "insert_exam self code date locations exam_type time test_type w =
     (case generate_insert_exam_query (fmt (dm_table_name self)) (str_lower exam_type) of
        Inl e \<Rightarrow> (Inl e, w)
      | Inr insert_query \<Rightarrow>
          except_OperationalError ''Error inserting exam record: '' False
            (case (if str_lower exam_type = ''prelim''
                   then execute_commit insert_query [code, date, locations] w
                   else if str_lower exam_type = ''final''
                   then execute_commit insert_query [code, date, time, test_type, locations] w
                   else (Inl (ValueError ''Unknown exam type''), w)) of
               (Inl e, w1) \<Rightarrow> (Inl e, w1)
             | (Inr result, w1) \<Rightarrow>
                 (let (b, w2) = dm_success_response ''Exam record inserted successfully.'' w1
                  in (Inr b, w2))))"

text \<open>The \<^verbatim>\<open>for exam_info in exams_data\<close> loop of \<^verbatim>\<open>populate_exam_table\<close>.\<close>

fun populate_rows :: "manager \<Rightarrow> string \<Rightarrow> exam_dict list \<Rightarrow> world \<Rightarrow> (py_error + unit) \<times> world" where
  "populate_rows self exam_type [] w = (Inr (), w)"
| "populate_rows self exam_type (exam_info # exams_data) w =
     (let code = map_of exam_info ''course_code'';
          date = map_of exam_info ''exam_date'';
          locations = map_of exam_info ''exam_locations'';
          (r, w1) =
            (if str_lower exam_type = ''final''
             then (let time = map_of exam_info ''exam_time'';
                       test_type = map_of exam_info ''test_type''
                   in insert_exam self code date locations (str_lower exam_type) time test_type w)
             else insert_exam self code date locations (str_lower exam_type) None None w)
      in case r of
           Inl e \<Rightarrow> (Inl e, w1)
         | Inr b \<Rightarrow> populate_rows self exam_type exams_data w1)"

definition populate_exam_table ::
  "manager \<Rightarrow> string \<Rightarrow> string \<Rightarrow> world \<Rightarrow> (py_error + bool) \<times> manager \<times> world" where
  "populate_exam_table self semester exam_type w =
     (let (scraped, scr, w1) = scrape_course_info (dm_scraper self) w;
          self1 = self\<lparr>dm_scraper := scr\<rparr>
      in case process_exam_data scr (ws_file_name scr) w1 of
           (Inl e, w2) \<Rightarrow> (Inl e, self1, w2)
         | (Inr exams_data, w2) \<Rightarrow>
             (case create_exam_table self1 semester (str_lower exam_type) (ws_year scr) w2 of
                (Inl e, self2, w3) \<Rightarrow> (Inl e, self2, w3)
              | (Inr created, self2, w3) \<Rightarrow>
                  (let (r, w4) =
                     except_OperationalError ''Error inserting data into PostgreSQL: '' False
                       (case exams_data of
                          Bool b \<Rightarrow> (Inl TypeError, w3)
                        | Value records \<Rightarrow>
                            (case populate_rows self2 exam_type records w3 of
                               (Inl e, w5) \<Rightarrow> (Inl e, w5)
                             | (Inr u, w5) \<Rightarrow>
                                 (case db_commit (w_db w5) of
                                    (Inl e, d) \<Rightarrow> (Inl e, w5\<lparr>w_db := d\<rparr>)
                                  | (Inr u', d) \<Rightarrow>
                                      (let (b, w6) = dm_success_response
                                                       ''Data inserted into database successfully!''
                                                       (w5\<lparr>w_db := d\<rparr>)
                                       in (Inr b, w6)))))
                   in (r, self2, w4))))"

definition update_exam ::
  "manager \<Rightarrow> string option \<Rightarrow> string option \<Rightarrow> string option \<Rightarrow> string \<Rightarrow>
     string option \<Rightarrow> string option \<Rightarrow> world \<Rightarrow> (py_error + bool) \<times> world" where
  "update_exam self code date locations exam_type time test_type w =
     except_OperationalError ''Error updating exam record: '' False
       (case generate_update_exam_query (fmt (dm_table_name self)) exam_type of
          Inl e \<Rightarrow> (Inl e, w)
        | Inr update_query \<Rightarrow>
            (case (if str_lower exam_type = ''prelim''
                   then execute_commit update_query [code, date, locations] w
                   else if str_lower exam_type = ''final''
                   then execute_commit update_query [code, date, time, test_type, locations] w
                   else (Inl (ValueError ''Unknown exam type''), w)) of
               (Inl e, w1) \<Rightarrow> (Inl e, w1)
             | (Inr result, w1) \<Rightarrow>
                 (let (b, w2) = dm_success_response ''Exam record updated successfully.'' w1
                  in (Inr b, w2))))"

definition format_exam_record :: "string list \<Rightarrow> string \<Rightarrow> py_error + exam_dict" where
  "format_exam_record record exam_type =
     (if exam_type = ''prelim'' then
        bnd (item record 0) (\<lambda>r0. bnd (item record 1) (\<lambda>r1. bnd (item record 2) (\<lambda>r2.
          Inr [(''course_code'', r0), (''exam_date'', r1), (''exam_locations'', r2)])))
      else if exam_type = ''final'' then
        bnd (item record 0) (\<lambda>r0. bnd (item record 1) (\<lambda>r1. bnd (item record 2) (\<lambda>r2.
        bnd (item record 3) (\<lambda>r3. bnd (item record 4) (\<lambda>r4.
          Inr [(''course_code'', r0), (''exam_date'', r1), (''exam_time'', r2),
               (''test_type'', r3), (''exam_locations'', r4)])))))
      else Inl (ValueError ''Unknown exam type''))"

text \<open>The list comprehension of \<^verbatim>\<open>fetch_exam\<close>.\<close>

fun format_exam_records :: "string list list \<Rightarrow> string \<Rightarrow> py_error + exam_dict list" where
  "format_exam_records [] exam_type = Inr []"
| "format_exam_records (record # exam_records) exam_type =
     bnd (format_exam_record record exam_type) (\<lambda>d.
     bnd (format_exam_records exam_records exam_type) (\<lambda>ds. Inr (d # ds)))"

definition fetch_exam ::
  "manager \<Rightarrow> string \<Rightarrow> string \<Rightarrow> world \<Rightarrow> (py_error + exam_dict list or_bool) \<times> world" where
  "fetch_exam self course_code exam_type w =
     except_OperationalError ''Error fetching exam records: '' (Bool False)
       (case db_execute (SelectAllWhere (Quoted (fmt (dm_table_name self))) ''course_code'')
               [Some course_code] (w_db w) of
          (Inl e, d) \<Rightarrow> (Inl e, w\<lparr>w_db := d\<rparr>)
        | (Inr exam_records, d) \<Rightarrow>
            (case format_exam_records exam_records exam_type of
               Inl e \<Rightarrow> (Inl e, w\<lparr>w_db := d\<rparr>)
             | Inr formatted \<Rightarrow> (Inr (Value formatted), w\<lparr>w_db := d\<rparr>)))"

section \<open>Names for the statements about the store\<close>

text \<open>
  A table extends another when it has the same columns and the other's rows as its
  first rows; a set of tables extends another when it extends each of its tables.
\<close>

definition table_extends :: "table \<Rightarrow> table \<Rightarrow> bool" where
  "table_extends t' t = (t_columns t' = t_columns t \<and> prefix (t_rows t) (t_rows t'))"

definition tables_extend :: "tables \<Rightarrow> tables \<Rightarrow> bool" where
  "tables_extend new old = (\<forall>n t. old n = Some t \<longrightarrow> (\<exists>t'. new n = Some t' \<and> table_extends t' t))"

text \<open>
  A batch of records and the table it goes into.  \<open>record_keys\<close> are the keys
  \<^verbatim>\<open>populate_exam_table\<close> reads from a record and \<open>insert_columns\<close> the columns its
  \<^verbatim>\<open>INSERT\<close> names, in the order of the parameters; \<open>record_row\<close> is the row a record
  becomes.  \<open>batch_ready\<close> says that the records \<open>good\<close> can be inserted from the world
  \<open>w\<close>: the selected table \<open>name\<close> is there as \<open>t\<close> with the columns of the
  \<^verbatim>\<open>INSERT\<close>, no transaction is open or failed, every record has its keys, and the
  two database calls of each record (\<^verbatim>\<open>execute\<close>, \<^verbatim>\<open>commit\<close>) will not fail.
\<close>

definition record_keys :: "string \<Rightarrow> string list" where
  "record_keys exam_type =
     (if str_lower exam_type = ''final''
      then [''course_code'', ''exam_date'', ''exam_time'', ''test_type'', ''exam_locations'']
      else [''course_code'', ''exam_date'', ''exam_locations''])"

definition insert_columns :: "string \<Rightarrow> string list" where
  "insert_columns exam_type =
     (if str_lower exam_type = ''final''
      then [''course_code'', ''exam_date'', ''exam_time'', ''exam_or_deliverable'', ''exam_locations'']
      else [''course_code'', ''exam_date'', ''exam_locations''])"

definition record_complete :: "string \<Rightarrow> exam_dict \<Rightarrow> bool" where
  "record_complete exam_type d = list_all (\<lambda>k. map_of d k \<noteq> None) (record_keys exam_type)"

definition record_row :: "string \<Rightarrow> exam_dict \<Rightarrow> string list" where
  "record_row exam_type d = map (\<lambda>k. the (map_of d k)) (record_keys exam_type)"

definition append_rows :: "table \<Rightarrow> string list list \<Rightarrow> table" where
  "append_rows t rs = t\<lparr>t_rows := t_rows t @ rs\<rparr>"

definition batch_ready :: "manager \<Rightarrow> string \<Rightarrow> string \<Rightarrow> table \<Rightarrow> exam_dict list \<Rightarrow> world \<Rightarrow> bool" where
  "batch_ready self exam_type name t good w =
     (str_lower exam_type \<in> {''prelim'', ''final''} \<and>
      resolve (Bare (fmt (dm_table_name self))) = Some name \<and>
      db_working (w_db w) name = Some t \<and>
      t_columns t = insert_columns exam_type \<and>
      \<not> db_aborted (w_db w) \<and>
      db_committed (w_db w) = db_working (w_db w) \<and>
      list_all (record_complete exam_type) good \<and>
      list_all (\<lambda>f. f = None) (take (2 * length good) (db_faults (w_db w))))"

section \<open>Inputs for the examples\<close>

text \<open>
  A registrar page with two prelims, a connection to an empty database on which the
  calls fail as the list \<open>fs\<close> says, a world that serves the page at every address
  and has no files, and a manager as \<^verbatim>\<open>get_db_manager\<close> builds it.
\<close>

definition example_page :: "string \<Rightarrow> soup" where
  "example_page heading =
     \<lparr>h2_text = Some heading,
      pre_element = Some \<lparr>strong_text = Some ''Course Date Location'',
                          rest_text = ''CS 2110 10/15 Statler Hall'' @ [char_of (10 :: nat)]
                                      @ ''CS 3110 10/17 Olin Hall''\<rparr>\<rparr>"

definition empty_database :: "py_error option list \<Rightarrow> database" where
  "empty_database fs =
     \<lparr>db_committed = (\<lambda>n. None), db_working = (\<lambda>n. None), db_aborted = False, db_faults = fs\<rparr>"

definition example_world :: "string \<Rightarrow> py_error option list \<Rightarrow> world" where
  "example_world heading fs =
     \<lparr>w_http = (\<lambda>url. Inr \<lparr>status_code = 200, content = example_page heading\<rparr>),
      w_files = (\<lambda>path. None), w_write_error = (\<lambda>path. None), w_stdout = [],
      w_db = empty_database fs\<rparr>"

definition example_scraper :: "string \<Rightarrow> string \<Rightarrow> scraper" where
  "example_scraper sem et =
     \<lparr>ws_semester = sem, ws_exam_type = et, ws_file_name = None,
      ws_exam_data_header = None, ws_year = None\<rparr>"

definition example_manager :: "string \<Rightarrow> string \<Rightarrow> manager" where
  "example_manager sem et = \<lparr>dm_scraper = example_scraper sem et, dm_table_name = None\<rparr>"

definition prelim_database :: "py_error option list \<Rightarrow> database" where
  \<comment> \<open>a connection to a database that holds the empty prelim table of fall 2024\<close>
  "prelim_database fs =
     \<lparr>db_committed = (\<lambda>n. if n = ''fall_2024_prelim_exams''
                           then Some \<lparr>t_columns = [''course_code'', ''exam_date'', ''exam_locations''],
                                      t_rows = []\<rparr>
                           else None),
      db_working = (\<lambda>n. if n = ''fall_2024_prelim_exams''
                         then Some \<lparr>t_columns = [''course_code'', ''exam_date'', ''exam_locations''],
                                    t_rows = []\<rparr>
                         else None),
      db_aborted = False, db_faults = fs\<rparr>"

definition prelim_world :: "py_error option list \<Rightarrow> world" where
  "prelim_world fs = (example_world ''fall 2024 prelim exams'' [])\<lparr>w_db := prelim_database fs\<rparr>"

definition prelim_manager :: manager where
  "prelim_manager =
     (example_manager ''fall'' ''prelim'')\<lparr>dm_table_name := Some ''fall_2024_prelim_exams''\<rparr>"

text \<open>
  The same for a final: a page with one final exam, and a database that holds the
  table of finals with the five columns the records have.
\<close>

definition final_world :: "py_error option list \<Rightarrow> world" where
  "final_world fs =
     \<lparr>w_http = (\<lambda>url. Inr \<lparr>status_code = 200,
                             content = \<lparr>h2_text = Some ''fall 2024 final exams'',
                                        pre_element = Some
                                          \<lparr>strong_text = Some ''Course Date Time Type Location'',
                                           rest_text = ''CS 2110 001 12/14 9:00 AM in person Barton Hall''\<rparr>\<rparr>\<rparr>),
      w_files = (\<lambda>path. None), w_write_error = (\<lambda>path. None), w_stdout = [],
      w_db = empty_database fs\<rparr>"

definition final_table_world :: "py_error option list \<Rightarrow> world" where
  "final_table_world fs =
     (final_world fs)\<lparr>w_db :=
        \<lparr>db_committed = (\<lambda>n. if n = ''fall_2024_final_exams''
                              then Some \<lparr>t_columns = [''course_code'', ''exam_date'', ''exam_time'',
                                                      ''test_type'', ''exam_locations''],
                                         t_rows = []\<rparr>
                              else None),
         db_working = (\<lambda>n. if n = ''fall_2024_final_exams''
                            then Some \<lparr>t_columns = [''course_code'', ''exam_date'', ''exam_time'',
                                                    ''test_type'', ''exam_locations''],
                                       t_rows = []\<rparr>
                            else None),
         db_aborted = False, db_faults = fs\<rparr>\<rparr>"

definition final_manager :: manager where
  "final_manager =
     (example_manager ''fall'' ''final'')\<lparr>dm_table_name := Some ''fall_2024_final_exams''\<rparr>"

section \<open>Properties of the parser\<close>

lemma split_from_tokens:
  "(\<forall>c\<in>set cur. \<not> isspace c) \<Longrightarrow> t \<in> set (split_from cur s) \<Longrightarrow> token t"
proof (induction s arbitrary: cur)
  case Nil
  then show ?case by (auto simp: token_def split: if_splits)
next
  case (Cons a s)
  show ?case
  proof (cases "isspace a")
    case True
    with Cons.prems have "(t = cur \<and> cur \<noteq> []) \<or> t \<in> set (split_from [] s)"
      by (auto split: if_splits)
    then show ?thesis
      using Cons.IH[of "[]"] Cons.prems(1) by (auto simp: token_def)
  next
    case False
    with Cons.prems have "t \<in> set (split_from (cur @ [a]) s)" by simp
    moreover have "\<forall>c\<in>set (cur @ [a]). \<not> isspace c"
      using False Cons.prems(1) by auto
    ultimately show ?thesis using Cons.IH by blast
  qed
qed

lemma str_split_tokens: "t \<in> set (str_split s) \<Longrightarrow> token t"
  unfolding str_split_def by (rule split_from_tokens[of "[]"]) auto

lemma split_from_spaces:
  "(\<forall>c\<in>set ws. isspace c) \<Longrightarrow> split_from cur ws = (if cur = [] then [] else [cur])"
  by (induction ws arbitrary: cur) auto

lemma split_from_append_spaces:
  "(\<forall>c\<in>set ws. isspace c) \<Longrightarrow> split_from cur (s @ ws) = split_from cur s"
  by (induction s arbitrary: cur) (auto simp: split_from_spaces)

lemma split_from_dropWhile:
  "split_from [] (dropWhile isspace s) = split_from [] s"
  by (induction s) auto

lemma str_split_strip: "str_split (str_strip s) = str_split s"
proof -
  define u where "u = dropWhile isspace s"
  have "u = rev (dropWhile isspace (rev u)) @ rev (takeWhile isspace (rev u))"
    by (metis rev_append rev_rev_ident takeWhile_dropWhile_id)
  moreover have "\<forall>c\<in>set (rev (takeWhile isspace (rev u))). isspace c"
    by (auto dest: set_takeWhileD)
  ultimately have "split_from [] u = split_from [] (rev (dropWhile isspace (rev u)))"
    by (metis split_from_append_spaces)
  then show ?thesis
    by (simp add: str_split_def str_strip_def u_def split_from_dropWhile)
qed

lemma str_strip_id:
  "s \<noteq> [] \<Longrightarrow> \<not> isspace (hd s) \<Longrightarrow> \<not> isspace (last s) \<Longrightarrow> str_strip s = s"
proof -
  assume a: "s \<noteq> []" "\<not> isspace (hd s)" "\<not> isspace (last s)"
  then have 1: "dropWhile isspace s = s" by (cases s) auto
  from a have "rev s \<noteq> []" "\<not> isspace (hd (rev s))" by (auto simp: hd_rev)
  then have "dropWhile isspace (rev s) = rev s" by (cases "rev s") auto
  with 1 show ?thesis by (simp add: str_strip_def)
qed

lemma str_strip_Nil: "str_strip [] = []" by (simp add: str_strip_def)

lemma str_join_hd_last:
  "ts \<noteq> [] \<Longrightarrow> \<forall>t\<in>set ts. token t \<Longrightarrow>
     str_join '' '' ts \<noteq> [] \<and> hd (str_join '' '' ts) = hd (hd ts) \<and> last (str_join '' '' ts) = last (last ts)"
  by (induction "'' ''" ts rule: str_join.induct) (auto simp: token_def)

lemma str_strip_join:
  assumes "\<forall>t\<in>set ts. token t" shows "str_strip (str_join '' '' ts) = str_join '' '' ts"
proof (cases ts)
  case Nil then show ?thesis by (simp add: str_strip_Nil)
next
  case (Cons a as)
  then have ne: "ts \<noteq> []" by simp
  have h: "token (hd ts)" and l: "token (last ts)"
    using assms ne by (auto simp: hd_in_set last_in_set)
  have "\<not> isspace (hd (hd ts))" using h by (cases "hd ts") (auto simp: token_def)
  moreover have "\<not> isspace (last (last ts))" using l by (auto simp: token_def)
  ultimately show ?thesis
    using str_join_hd_last[OF ne assms] by (intro str_strip_id) auto
qed


lemma str_strip_token: "token t \<Longrightarrow> str_strip t = t"
  using str_strip_join[of "[t]"] by simp

lemma str_strip_two:
  "token a \<Longrightarrow> token b \<Longrightarrow> str_strip (a @ CHR '' '' # b) = a @ CHR '' '' # b"
  using str_strip_join[of "[a, b]"] by simp

lemma str_strip_three:
  "token a \<Longrightarrow> token b \<Longrightarrow> token c \<Longrightarrow>
     str_strip (a @ CHR '' '' # b @ CHR '' '' # c) = a @ CHR '' '' # b @ CHR '' '' # c"
  using str_strip_join[of "[a, b, c]"] by simp

lemma token_nth: "i < length (str_split s) \<Longrightarrow> token (str_split s ! i)"
  by (rule str_split_tokens[of _ s]) simp

lemma str_strip_join_drop:
  "str_strip (str_join '' '' (drop n (str_split s))) = str_join '' '' (drop n (str_split s))"
  by (rule str_strip_join) (auto dest: in_set_dropD str_split_tokens)

lemma str_strip_join_slice:
  "str_strip (str_join '' '' (slice (str_split s) i j)) = str_join '' '' (slice (str_split s) i j)"
  unfolding slice_def
  by (rule str_strip_join) (auto dest: in_set_dropD in_set_takeD str_split_tokens)

lemma parse_exam_line_prelim:
  assumes "\<not> is_skipped semester line" and "str_lower exam_type = ''prelim''"
  shows "parse_exam_line semester exam_type line =
    (let parts = str_split line in
     if length parts < 3 then Inl IndexError
     else if length (parts ! 2) = 3 then
       (if length parts < 4 then Inl IndexError
        else Inr (Some [(''course_code'', parts ! 0 @ '' '' @ parts ! 1 @ '' '' @ parts ! 2),
                        (''exam_date'', parts ! 3),
                        (''exam_locations'', str_join '' '' (drop 4 parts))]))
     else Inr (Some [(''course_code'', parts ! 0 @ '' '' @ parts ! 1),
                     (''exam_date'', parts ! 2),
                     (''exam_locations'', str_join '' '' (drop 3 parts))]))"
  using assms
  by (simp add: parse_exam_line_def is_skipped_def Let_def str_split_strip bnd_def item_def
      slice_from_def str_strip_Nil str_strip_two str_strip_three str_strip_token token_nth str_strip_join_drop)

lemma parse_exam_line_final:
  assumes "\<not> is_skipped semester line" and "str_lower exam_type = ''final''"
  shows "parse_exam_line semester exam_type line =
    (let parts = str_split line in
     if length parts < 3 then Inl IndexError
     else if length (parts ! 2) = 3 then
       (if length parts < 4 then Inl IndexError
        else Inr (Some [(''course_code'', parts ! 0 @ '' '' @ parts ! 1 @ '' '' @ parts ! 2),
                        (''exam_date'', parts ! 3),
                        (''exam_time'', str_join '' '' (slice parts 4 6)),
                        (''test_type'', str_join '' '' (slice parts 6 8)),
                        (''exam_locations'', str_join '' '' (drop 8 parts))]))
     else Inr (Some [(''course_code'', parts ! 0 @ '' '' @ parts ! 1),
                     (''exam_date'', parts ! 2),
                     (''exam_time'', str_join '' '' (slice parts 3 5)),
                     (''test_type'', str_join '' '' (slice parts 5 7)),
                     (''exam_locations'', str_join '' '' (drop 7 parts))]))"
proof -
  have ne: "str_lower exam_type \<noteq> ''prelim''" using assms(2) by simp
  show ?thesis
    using assms(1) assms(2) ne
    by (simp add: parse_exam_line_def is_skipped_def Let_def str_split_strip bnd_def item_def
      slice_from_def str_strip_Nil str_strip_two str_strip_three str_strip_token token_nth str_strip_join_drop
      str_strip_join_slice)
qed


lemma str_lower_prelim: "str_lower ''prelim'' = ''prelim''"
  by code_simp

lemma str_lower_final: "str_lower ''final'' = ''final''"
  by code_simp

lemma take_two_nth: "2 \<le> length xs \<Longrightarrow> take 2 xs = [xs ! 0, xs ! 1]"
  by (cases xs; cases "tl xs") auto

lemma take_three_nth: "3 \<le> length xs \<Longrightarrow> take 3 xs = [xs ! 0, xs ! 1, xs ! 2]"
  by (cases xs; cases "tl xs"; cases "tl (tl xs)") (auto simp: numeral_3_eq_3)

lemma slice_two_nth: "i + 2 \<le> length xs \<Longrightarrow> slice xs i (i + 2) = [xs ! i, xs ! (i + 1)]"
  unfolding slice_def
  by (simp add: take_two_nth)

lemma parse_exam_file_single:
  "parse_exam_file semester exam_type [line] =
     (case parse_exam_line semester exam_type line of
        Inl e \<Rightarrow> Inl e | Inr None \<Rightarrow> Inr [] | Inr (Some d) \<Rightarrow> Inr [d])"
  by (simp add: parse_exam_file_def split: sum.splits option.splits)

text \<open>
  C1 (amended).  A line that is not skipped and has at least four whitespace-separated
  tokens, parsed as \<^verbatim>\<open>prelim\<close>, gives exactly one record.  When the third token has
  length 3 the course code is the first three tokens joined by spaces, the date is the
  fourth token and the locations are the tokens from the fifth on, joined by spaces;
  otherwise the course code is the first two tokens, the date the third and the locations
  the tokens from the fourth on.
\<close>

theorem prelim_line_record:
  assumes "\<not> is_skipped semester line" and "4 \<le> length (str_split line)"
  shows "parse_exam_file semester ''prelim'' [line] =
    Inr [let parts = str_split line in
         if length (parts ! 2) = 3
         then [(''course_code'', str_join '' '' (take 3 parts)),
               (''exam_date'', parts ! 3),
               (''exam_locations'', str_join '' '' (drop 4 parts))]
         else [(''course_code'', str_join '' '' (take 2 parts)),
               (''exam_date'', parts ! 2),
               (''exam_locations'', str_join '' '' (drop 3 parts))]]"
  using assms(2)
  by (simp add: parse_exam_file_single parse_exam_line_prelim[OF assms(1) str_lower_prelim]
      Let_def take_two_nth take_three_nth)

text \<open>
  The registrar line \<^verbatim>\<open>CS 2110 10/15 Statler Hall\<close> of semester \<^verbatim>\<open>FA 2024\<close>.
\<close>

theorem prelim_line_record_witness:
  "\<not> is_skipped ''FA 2024'' ''CS 2110 10/15 Statler Hall'' \<and>
   4 \<le> length (str_split ''CS 2110 10/15 Statler Hall'') \<and>
   parse_exam_file ''FA 2024'' ''prelim'' [''CS 2110 10/15 Statler Hall''] =
     Inr [[(''course_code'', ''CS 2110''), (''exam_date'', ''10/15''),
           (''exam_locations'', ''Statler Hall'')]]"
proof -
  have h1: "\<not> is_skipped ''FA 2024'' ''CS 2110 10/15 Statler Hall''" by code_simp
  have h2: "4 \<le> length (str_split ''CS 2110 10/15 Statler Hall'')" by code_simp
  have e: "(let parts = str_split ''CS 2110 10/15 Statler Hall'' in
         if length (parts ! 2) = 3
         then [(''course_code'', str_join '' '' (take 3 parts)),
               (''exam_date'', parts ! 3),
               (''exam_locations'', str_join '' '' (drop 4 parts))]
         else [(''course_code'', str_join '' '' (take 2 parts)),
               (''exam_date'', parts ! 2),
               (''exam_locations'', str_join '' '' (drop 3 parts))]) =
        [(''course_code'', ''CS 2110''), (''exam_date'', ''10/15''),
           (''exam_locations'', ''Statler Hall'')]" by code_simp
  show ?thesis
    using h1 h2 prelim_line_record[OF h1 h2] unfolding e by simp
qed

text \<open>
  C1 without the skip condition does not hold.  The header line of the
  listing has five tokens and starts with the semester label: it gives no record.
\<close>

theorem prelim_header_line_counterexample:
  "4 \<le> length (str_split ''Fall 2024 Prelim Exam Schedule'') \<and>
   parse_exam_file ''Fall 2024'' ''prelim'' [''Fall 2024 Prelim Exam Schedule''] = Inr []"
  by code_simp


text \<open>
  C2 (amended).  A line that is not skipped and has enough tokens (eight when the third
  token has length 3, seven otherwise), parsed as \<^verbatim>\<open>final\<close>, gives exactly one record:
  the course code as for a prelim, then one token for the date, two tokens joined by a
  space for the time, two for the test type, and the remaining tokens for the locations.
\<close>

theorem final_line_record:
  assumes "\<not> is_skipped semester line"
    and "(if length (str_split line ! 2) = 3 then 8 else 7) \<le> length (str_split line)"
  shows "parse_exam_file semester ''final'' [line] =
    Inr [let parts = str_split line in
         if length (parts ! 2) = 3
         then [(''course_code'', str_join '' '' (take 3 parts)),
               (''exam_date'', parts ! 3),
               (''exam_time'', str_join '' '' [parts ! 4, parts ! 5]),
               (''test_type'', str_join '' '' [parts ! 6, parts ! 7]),
               (''exam_locations'', str_join '' '' (drop 8 parts))]
         else [(''course_code'', str_join '' '' (take 2 parts)),
               (''exam_date'', parts ! 2),
               (''exam_time'', str_join '' '' [parts ! 3, parts ! 4]),
               (''test_type'', str_join '' '' [parts ! 5, parts ! 6]),
               (''exam_locations'', str_join '' '' (drop 7 parts))]]"
proof -
  let ?parts = "str_split line"
  have len: "7 \<le> length ?parts" using assms(2) by (simp split: if_splits)
  have s35: "slice ?parts 3 5 = [?parts ! 3, ?parts ! 4]"
    using slice_two_nth[of 3 ?parts] len by simp
  have s57: "slice ?parts 5 7 = [?parts ! 5, ?parts ! 6]"
    using slice_two_nth[of 5 ?parts] len by simp
  have s46: "slice ?parts 4 6 = [?parts ! 4, ?parts ! 5]"
    using slice_two_nth[of 4 ?parts] len by simp
  show ?thesis
  proof (cases "length (?parts ! 2) = 3")
    case True
    with assms(2) have len8: "8 \<le> length ?parts" by simp
    have s68: "slice ?parts 6 8 = [?parts ! 6, ?parts ! 7]"
      using slice_two_nth[of 6 ?parts] len8 by simp
    show ?thesis
      using True len8
      by (simp add: parse_exam_file_single parse_exam_line_final[OF assms(1) str_lower_final]
          Let_def take_three_nth s46 s68)
  next
    case False
    show ?thesis
      using False len
      by (simp add: parse_exam_file_single parse_exam_line_final[OF assms(1) str_lower_final]
          Let_def take_two_nth s35 s57)
  qed
qed

text \<open>
  The line \<^verbatim>\<open>CS 2110 001 12/14 9:00 AM in person Barton Hall\<close> of semester \<^verbatim>\<open>FA 2024\<close>.
\<close>

theorem final_line_record_witness:
  "\<not> is_skipped ''FA 2024'' ''CS 2110 001 12/14 9:00 AM in person Barton Hall'' \<and>
   (if length (str_split ''CS 2110 001 12/14 9:00 AM in person Barton Hall'' ! 2) = 3
    then 8 else 7) \<le> length (str_split ''CS 2110 001 12/14 9:00 AM in person Barton Hall'') \<and>
   parse_exam_file ''FA 2024'' ''final'' [''CS 2110 001 12/14 9:00 AM in person Barton Hall''] =
     Inr [[(''course_code'', ''CS 2110 001''), (''exam_date'', ''12/14''),
           (''exam_time'', ''9:00 AM''), (''test_type'', ''in person''),
           (''exam_locations'', ''Barton Hall'')]]"
proof -
  let ?line = "''CS 2110 001 12/14 9:00 AM in person Barton Hall''"
  have h1: "\<not> is_skipped ''FA 2024'' ?line" by code_simp
  have h2: "(if length (str_split ?line ! 2) = 3 then 8 else 7) \<le> length (str_split ?line)"
    by code_simp
  have e: "(let parts = str_split ?line in
         if length (parts ! 2) = 3
         then [(''course_code'', str_join '' '' (take 3 parts)),
               (''exam_date'', parts ! 3),
               (''exam_time'', str_join '' '' [parts ! 4, parts ! 5]),
               (''test_type'', str_join '' '' [parts ! 6, parts ! 7]),
               (''exam_locations'', str_join '' '' (drop 8 parts))]
         else [(''course_code'', str_join '' '' (take 2 parts)),
               (''exam_date'', parts ! 2),
               (''exam_time'', str_join '' '' [parts ! 3, parts ! 4]),
               (''test_type'', str_join '' '' [parts ! 5, parts ! 6]),
               (''exam_locations'', str_join '' '' (drop 7 parts))]) =
        [(''course_code'', ''CS 2110 001''), (''exam_date'', ''12/14''),
           (''exam_time'', ''9:00 AM''), (''test_type'', ''in person''),
           (''exam_locations'', ''Barton Hall'')]" by code_simp
  show ?thesis
    using h1 h2 final_line_record[OF h1 h2] unfolding e by simp
qed

text \<open>
  C2 without the skip condition does not hold: a header line with eight tokens that
  starts with the semester label gives no record.
\<close>

theorem final_header_line_counterexample:
  "7 \<le> length (str_split ''Fall 2024 Final Exam Schedule - All Courses'') \<and>
   length (str_split ''Fall 2024 Final Exam Schedule - All Courses'' ! 2) \<noteq> 3 \<and>
   parse_exam_file ''Fall 2024'' ''final'' [''Fall 2024 Final Exam Schedule - All Courses'']
     = Inr []"
  by code_simp

text \<open>
  C6.  On a line that is not skipped, a third token of length exactly 3 always goes into
  the course code, whatever it contains, for prelims and finals alike: either the line
  has no fourth token and parsing raises \<^verbatim>\<open>IndexError\<close>, or the record's course code is
  the first three tokens and its date is the fourth token, never the third.
\<close>

theorem third_token_folded:
  assumes "\<not> is_skipped semester line"
    and "str_lower exam_type \<in> {''prelim'', ''final''}"
    and "3 \<le> length (str_split line)"
    and "length (str_split line ! 2) = 3"
  shows "let parts = str_split line in
         if length parts < 4
         then parse_exam_file semester exam_type [line] = Inl IndexError
         else \<exists>d. parse_exam_file semester exam_type [line] = Inr [d] \<and>
                map_of d ''course_code'' = Some (parts ! 0 @ '' '' @ parts ! 1 @ '' '' @ parts ! 2) \<and>
                map_of d ''exam_date'' = Some (parts ! 3)"
proof (cases "str_lower exam_type = ''prelim''")
  case True
  show ?thesis
    using assms(3,4)
    by (simp add: parse_exam_file_single parse_exam_line_prelim[OF assms(1) True] Let_def)
next
  case False
  with assms(2) have fin: "str_lower exam_type = ''final''" by simp
  show ?thesis
    using assms(3,4)
    by (simp add: parse_exam_file_single parse_exam_line_final[OF assms(1) fin] Let_def)
qed

text \<open>
  A third token that looks like a date, \<^verbatim>\<open>9/5\<close>, is still part of the course code.
\<close>

theorem third_token_folded_witness:
  "\<not> is_skipped ''FA 2024'' ''CS 2110 9/5 9/12 Statler Hall'' \<and>
   str_lower ''prelim'' \<in> {''prelim'', ''final''} \<and>
   3 \<le> length (str_split ''CS 2110 9/5 9/12 Statler Hall'') \<and>
   length (str_split ''CS 2110 9/5 9/12 Statler Hall'' ! 2) = 3 \<and>
   (\<exists>d. parse_exam_file ''FA 2024'' ''prelim'' [''CS 2110 9/5 9/12 Statler Hall''] = Inr [d] \<and>
        map_of d ''course_code'' = Some ''CS 2110 9/5'' \<and>
        map_of d ''exam_date'' = Some ''9/12'')"
proof -
  let ?line = "''CS 2110 9/5 9/12 Statler Hall''"
  have h1: "\<not> is_skipped ''FA 2024'' ?line" by code_simp
  have h2: "str_lower ''prelim'' \<in> {''prelim'', ''final''}" by code_simp
  have h3: "3 \<le> length (str_split ?line)" by code_simp
  have h4: "length (str_split ?line ! 2) = 3" by code_simp
  have e1: "\<not> length (str_split ?line) < 4" by code_simp
  have e2: "str_split ?line ! 0 @ '' '' @ str_split ?line ! 1 @ '' '' @ str_split ?line ! 2
            = ''CS 2110 9/5''" by code_simp
  have e3: "str_split ?line ! 3 = ''9/12''" by code_simp
  show ?thesis
    using h1 h2 h3 h4 third_token_folded[OF h1 h2 h3 h4] e1 e2 e3
    by (simp add: Let_def)
qed

lemma parse_exam_line_skipped:
  "is_skipped semester line \<Longrightarrow> parse_exam_line semester exam_type line = Inr None"
  by (simp add: parse_exam_line_def is_skipped_def Let_def)

lemma parse_exam_line_unknown:
  assumes "str_lower exam_type \<notin> {''prelim'', ''final''}" and "\<not> is_skipped semester line"
  shows "parse_exam_line semester exam_type line = Inl (ValueError ''Unknown Exam Type'')"
  using assms by (simp add: parse_exam_line_def is_skipped_def Let_def)

lemma parse_exam_line_known_error:
  assumes "str_lower exam_type \<in> {''prelim'', ''final''}"
    and "parse_exam_line semester exam_type line = Inl e"
  shows "e = IndexError"
proof (cases "is_skipped semester line")
  case True
  with assms(2) show ?thesis by (simp add: parse_exam_line_skipped)
next
  case False
  show ?thesis
  proof (cases "str_lower exam_type = ''prelim''")
    case True
    with assms(2) show ?thesis
      by (simp add: parse_exam_line_prelim[OF False True] Let_def split: if_splits)
  next
    case f: False
    with assms(1) have fin: "str_lower exam_type = ''final''" by simp
    with assms(2) show ?thesis
      by (simp add: parse_exam_line_final[OF False fin] Let_def split: if_splits)
  qed
qed

lemma parse_exam_line_short:
  assumes "str_lower exam_type \<in> {''prelim'', ''final''}"
    and "\<not> is_skipped semester line" and "length (str_split line) < 3"
  shows "parse_exam_line semester exam_type line = Inl IndexError"
proof (cases "str_lower exam_type = ''prelim''")
  case True
  show ?thesis using assms(3) by (simp add: parse_exam_line_prelim[OF assms(2) True] Let_def)
next
  case False
  with assms(1) have fin: "str_lower exam_type = ''final''" by simp
  show ?thesis using assms(3) by (simp add: parse_exam_line_final[OF assms(2) fin] Let_def)
qed

lemma parse_exam_loop_short:
  assumes "str_lower exam_type \<in> {''prelim'', ''final''}"
    and "line \<in> set lns" and "\<not> is_skipped semester line" and "length (str_split line) < 3"
  shows "parse_exam_loop semester exam_type acc lns = Inl IndexError"
  using assms(2)
proof (induction lns arbitrary: acc)
  case Nil
  then show ?case by simp
next
  case (Cons l ls)
  show ?case
  proof (cases "parse_exam_line semester exam_type l")
    case (Inl e)
    then show ?thesis
      using parse_exam_line_known_error[OF assms(1) Inl] by simp
  next
    case (Inr r)
    then have "l \<noteq> line"
      using parse_exam_line_short[OF assms(1,3,4)] by auto
    with Cons.prems have "line \<in> set ls" by simp
    then show ?thesis
      using Inr Cons.IH by (simp split: option.splits)
  qed
qed

text \<open>
  C7.  With exam type prelim or final, a listing that holds a line which is not skipped
  and has fewer than three tokens makes parsing raise \<^verbatim>\<open>IndexError\<close>: no token count
  is checked before \<^verbatim>\<open>parts[2]\<close> is read, and no other exception can come first.
\<close>

theorem short_line_index_error:
  assumes "str_lower exam_type \<in> {''prelim'', ''final''}"
    and "line \<in> set lns" and "\<not> is_skipped semester line" and "length (str_split line) < 3"
  shows "parse_exam_file semester exam_type lns = Inl IndexError"
  unfolding parse_exam_file_def using assms by (rule parse_exam_loop_short)

text \<open>
  A listing whose only data line is \<^verbatim>\<open>CS 2110\<close>.
\<close>

theorem short_line_index_error_witness:
  "str_lower ''final'' \<in> {''prelim'', ''final''} \<and>
   ''CS 2110'' \<in> set [''FA 2024 Final Exams'', ''CS 2110''] \<and>
   \<not> is_skipped ''FA 2024'' ''CS 2110'' \<and> length (str_split ''CS 2110'') < 3 \<and>
   parse_exam_file ''FA 2024'' ''final'' [''FA 2024 Final Exams'', ''CS 2110''] = Inl IndexError"
proof -
  have h1: "str_lower ''final'' \<in> {''prelim'', ''final''}" by code_simp
  have h2: "''CS 2110'' \<in> set [''FA 2024 Final Exams'', ''CS 2110'']" by simp
  have h3: "\<not> is_skipped ''FA 2024'' ''CS 2110''" by code_simp
  have h4: "length (str_split ''CS 2110'') < 3" by code_simp
  show ?thesis
    using h1 h2 h3 h4 short_line_index_error[OF h1 h2 h3 h4] by simp
qed

lemma parse_exam_loop_unknown:
  assumes "str_lower exam_type \<notin> {''prelim'', ''final''}"
  shows "parse_exam_loop semester exam_type acc lns =
     (if \<forall>line\<in>set lns. is_skipped semester line then Inr acc
      else Inl (ValueError ''Unknown Exam Type''))"
proof (induction lns arbitrary: acc)
  case Nil
  show ?case by simp
next
  case (Cons l ls)
  show ?case
  proof (cases "is_skipped semester l")
    case True
    then show ?thesis by (simp add: parse_exam_line_skipped Cons.IH)
  next
    case False
    then show ?thesis by (simp add: parse_exam_line_unknown[OF assms False])
  qed
qed

lemma parse_exam_loop_all_skipped:
  "\<forall>line\<in>set lns. is_skipped semester line \<Longrightarrow>
     parse_exam_loop semester exam_type acc lns = Inr acc"
  by (induction lns arbitrary: acc) (simp_all add: parse_exam_line_skipped)

text \<open>
  C10.  The exam type is tested inside the loop, after the skip test.  A listing whose
  lines are all skipped parses to the empty list whatever the exam type is; with an exam
  type that is neither prelim nor final (compared in lower case), the first line that is
  not skipped raises \<^verbatim>\<open>ValueError("Unknown Exam Type")\<close>.
\<close>

theorem unknown_type_checked_per_line:
  "((\<forall>line\<in>set lns. is_skipped semester line) \<longrightarrow>
      parse_exam_file semester exam_type lns = Inr []) \<and>
   (str_lower exam_type \<notin> {''prelim'', ''final''} \<longrightarrow>
    (\<exists>line\<in>set lns. \<not> is_skipped semester line) \<longrightarrow>
      parse_exam_file semester exam_type lns = Inl (ValueError ''Unknown Exam Type''))"
  by (auto simp: parse_exam_file_def parse_exam_loop_all_skipped parse_exam_loop_unknown)

text \<open>
  Exam type \<^verbatim>\<open>midterm\<close>: a header and blank lines parse to the empty list, a data line
  raises.
\<close>

theorem unknown_type_checked_per_line_witness:
  "is_skipped ''FA 2024'' ''FA 2024 Exams'' \<and> is_skipped ''FA 2024'' [] \<and>
   is_skipped ''FA 2024'' ''  '' \<and>
   parse_exam_file ''FA 2024'' ''midterm'' [''FA 2024 Exams'', [], ''  ''] = Inr [] \<and>
   str_lower ''midterm'' \<notin> {''prelim'', ''final''} \<and>
   \<not> is_skipped ''FA 2024'' ''CS 2110 10/15 Statler Hall'' \<and>
   parse_exam_file ''FA 2024'' ''midterm'' [''FA 2024 Exams'', ''CS 2110 10/15 Statler Hall'']
     = Inl (ValueError ''Unknown Exam Type'')"
proof -
  have s1: "is_skipped ''FA 2024'' ''FA 2024 Exams''" by code_simp
  have s2: "is_skipped ''FA 2024'' []" by code_simp
  have s3: "is_skipped ''FA 2024'' ''  ''" by code_simp
  have h2: "str_lower ''midterm'' \<notin> {''prelim'', ''final''}" by code_simp
  have h3: "\<not> is_skipped ''FA 2024'' ''CS 2110 10/15 Statler Hall''" by code_simp
  have a: "parse_exam_file ''FA 2024'' ''midterm'' [''FA 2024 Exams'', [], ''  ''] = Inr []"
    using s1 s2 s3
      unknown_type_checked_per_line[of "[''FA 2024 Exams'', [], ''  '']" "''FA 2024''" "''midterm''"]
    by simp
  have b: "parse_exam_file ''FA 2024'' ''midterm''
             [''FA 2024 Exams'', ''CS 2110 10/15 Statler Hall'']
           = Inl (ValueError ''Unknown Exam Type'')"
    using h2 h3
      unknown_type_checked_per_line[of "[''FA 2024 Exams'', ''CS 2110 10/15 Statler Hall'']"
        "''FA 2024''" "''midterm''"]
    by simp
  show ?thesis using s1 s2 s3 h2 h3 a b by simp
qed

section \<open>Properties of the scraper\<close>

text \<open>
  C8 (amended).  When the page has its heading, its \<^verbatim>\<open>pre\<close> block and the block's
  \<^verbatim>\<open>strong\<close> header, the heading has a second word (the year) and the file can be
  written, \<^verbatim>\<open>parse_html\<close> writes the heading, a newline and the body to the file named
  by the lower-cased semester, the year as extracted and the lower-cased exam type,
  joined by hyphens and followed by \<^verbatim>\<open>-exams.txt\<close>.  Nothing replaces the spaces of the
  semester: only \<^verbatim>\<open>generate_url\<close> does that.
\<close>

theorem artifact_file_name:
  assumes "h2_text sp = Some semester_info" and "pre_element sp = Some p"
    and "strong_text p = Some strong" and "2 \<le> length (str_split semester_info)"
    and "w_write_error w (str_lower (ws_semester self) @ ''-'' @ str_split semester_info ! 1 @ ''-''
                          @ str_lower (ws_exam_type self) @ ''-exams.txt'') = None"
  shows "parse_html self sp w =
    (let year = str_split semester_info ! 1;
         name = str_lower (ws_semester self) @ ''-'' @ year @ ''-''
                @ str_lower (ws_exam_type self) @ ''-exams.txt''
     in (Inr (rest_text p),
         self\<lparr>ws_exam_data_header := Some (str_strip strong), ws_year := Some year,
              ws_file_name := Some name\<rparr>,
         print (''Data saved to '' @ name, None)
           (w\<lparr>w_files := (w_files w)(name \<mapsto> semester_info @ [char_of (10 :: nat)] @ rest_text p)\<rparr>)))"
  using assms
  by (simp add: parse_html_def item_def Let_def filename_def fmt_def save_to_text_file_def
      ws_success_response_def)

text \<open>
  C8 with a file name free of spaces does not hold.  For the semester
  \<^verbatim>\<open>Fall 2024\<close> the file written is \<^verbatim>\<open>fall 2024-2024-prelim-exams.txt\<close>.
\<close>

theorem artifact_file_name_counterexample:
  "ws_file_name (fst (snd (parse_html (example_scraper ''Fall 2024'' ''Prelim'')
       (example_page ''Fall 2024 Prelim Exam Schedule'')
       (example_world ''Fall 2024 Prelim Exam Schedule'' []))))
     = Some ''fall 2024-2024-prelim-exams.txt'' \<and>
   w_files (snd (snd (parse_html (example_scraper ''Fall 2024'' ''Prelim'')
       (example_page ''Fall 2024 Prelim Exam Schedule'')
       (example_world ''Fall 2024 Prelim Exam Schedule'' []))))
     ''fall 2024-2024-prelim-exams.txt'' \<noteq> None \<and>
   CHR '' '' \<in> set ''fall 2024-2024-prelim-exams.txt''"
  by code_simp

text \<open>
  Semester \<^verbatim>\<open>FA\<close>, exam type \<^verbatim>\<open>Prelim\<close>, heading \<^verbatim>\<open>FA 2024 Prelim Exams\<close>.
\<close>

theorem artifact_file_name_witness:
  "h2_text (example_page ''FA 2024 Prelim Exams'') = Some ''FA 2024 Prelim Exams'' \<and>
   2 \<le> length (str_split ''FA 2024 Prelim Exams'') \<and>
   fst (snd (parse_html (example_scraper ''FA'' ''Prelim'') (example_page ''FA 2024 Prelim Exams'')
              (example_world ''FA 2024 Prelim Exams'' []))) =
     \<lparr>ws_semester = ''FA'', ws_exam_type = ''Prelim'',
      ws_file_name = Some ''fa-2024-prelim-exams.txt'',
      ws_exam_data_header = Some ''Course Date Location'', ws_year = Some ''2024''\<rparr> \<and>
   w_files (snd (snd (parse_html (example_scraper ''FA'' ''Prelim'')
              (example_page ''FA 2024 Prelim Exams'') (example_world ''FA 2024 Prelim Exams'' []))))
       ''fa-2024-prelim-exams.txt'' =
     Some (''FA 2024 Prelim Exams'' @ [char_of (10 :: nat)] @ ''CS 2110 10/15 Statler Hall''
           @ [char_of (10 :: nat)] @ ''CS 3110 10/17 Olin Hall'')"
proof -
  let ?sp = "example_page ''FA 2024 Prelim Exams''"
  let ?w = "example_world ''FA 2024 Prelim Exams'' []"
  let ?self = "example_scraper ''FA'' ''Prelim''"
  let ?p = "\<lparr>strong_text = Some ''Course Date Location'',
             rest_text = ''CS 2110 10/15 Statler Hall'' @ [char_of (10 :: nat)]
                         @ ''CS 3110 10/17 Olin Hall''\<rparr>"
  have h1: "h2_text ?sp = Some ''FA 2024 Prelim Exams''" by (simp add: example_page_def)
  have h2: "pre_element ?sp = Some ?p" by (simp add: example_page_def)
  have h3: "strong_text ?p = Some ''Course Date Location''" by simp
  have h4: "2 \<le> length (str_split ''FA 2024 Prelim Exams'')" by code_simp
  have h5: "w_write_error ?w (str_lower (ws_semester ?self) @ ''-''
              @ str_split ''FA 2024 Prelim Exams'' ! 1 @ ''-''
              @ str_lower (ws_exam_type ?self) @ ''-exams.txt'') = None"
    by (simp add: example_world_def)
  have y: "str_split ''FA 2024 Prelim Exams'' ! Suc 0 = ''2024''" by code_simp
  have l1: "str_lower ''FA'' = ''fa''" by code_simp
  have l2: "str_lower ''Prelim'' = ''prelim''" by code_simp
  have s: "str_strip ''Course Date Location'' = ''Course Date Location''" by code_simp
  show ?thesis
    using h1 h4 artifact_file_name[OF h1 h2 h3 h4 h5]
    by (simp add: Let_def y l1 l2 s example_scraper_def print_def)
qed

section \<open>Which failures are caught\<close>

lemma scrape_course_info_returns:
  "\<exists>r self' w'. scrape_course_info self w = (Inr r, self', w')"
  by (simp add: scrape_course_info_def ws_error_response_def Let_def
      split: sum.splits prod.splits)

lemma scrape_course_info_network_error:
  "w_http w (generate_url self) = Inl e \<Longrightarrow>
     scrape_course_info self w =
       (Inr (Bool False), self, print (''Error scraping course information: '', Some e) w)"
  by (simp add: scrape_course_info_def ws_error_response_def)

lemma scrape_course_info_status_error:
  "w_http w (generate_url self) = Inr resp \<Longrightarrow>
   400 \<le> status_code resp \<and> status_code resp < 600 \<Longrightarrow>
     scrape_course_info self w =
       (Inr (Bool False), self, print (''Error scraping course information: '', Some HTTPError) w)"
  by (simp add: scrape_course_info_def ws_error_response_def)

lemma scrape_course_info_page_error:
  "w_http w (generate_url self) = Inr resp \<Longrightarrow>
   \<not> (400 \<le> status_code resp \<and> status_code resp < 600) \<Longrightarrow>
   parse_html self (content resp) w = (Inl e, self', w') \<Longrightarrow>
     scrape_course_info self w =
       (Inr (Bool False), self', print (''Error scraping course information: '', Some e) w')"
  by (auto simp: scrape_course_info_def ws_error_response_def)

lemma save_to_text_file_error:
  "w_write_error w fname = Some e \<Longrightarrow>
     save_to_text_file fname fdata w =
       (Inr False, print (''Error saving data to file: '', Some e) w)"
  by (simp add: save_to_text_file_def ws_error_response_def)

lemma process_exam_data_missing:
  "w_files w fpath = None \<Longrightarrow>
     process_exam_data self (Some fpath) w =
       (Inr (Bool False),
        print (''Error: File '' @ [CHR 0x27] @ fpath @ [CHR 0x27] @ '' not found.'', None) w)"
  by (simp add: process_exam_data_def ws_error_response_def)

lemma process_exam_data_propagates:
  "w_files w fpath = Some ftext \<Longrightarrow>
   parse_exam_file (ws_semester self) (ws_exam_type self) (file_lines ftext) = Inl e \<Longrightarrow>
     process_exam_data self (Some fpath) w = (Inl e, w)"
  by (simp add: process_exam_data_def)

lemma except_OperationalError_Inl:
  "except_OperationalError msg f (Inl e, w) =
     (if e = OperationalError then (Inr f, print (''Error: '' @ msg, Some e) w) else (Inl e, w))"
  by (simp add: except_OperationalError_def dm_error_response_def)

lemma except_OperationalError_Inr:
  "except_OperationalError msg f (Inr x, w) = (Inr x, w)"
  by (simp add: except_OperationalError_def)

lemma create_exam_table_error:
  assumes "generate_create_table_query (semester @ ''_'' @ fmt year @ ''_'' @ exam_type @ ''_exams'')
             exam_type = Inr q"
    and "execute_commit q [] w = (Inl e, w1)"
  shows "create_exam_table self semester exam_type year w =
     (if e = OperationalError
      then (Inr False, set_exam_table_name self (semester @ ''_'' @ fmt year @ ''_'' @ exam_type @ ''_exams''),
            print (''Error: Error creating table in PostgreSQL: '', Some e) w1)
      else (Inl e, set_exam_table_name self (semester @ ''_'' @ fmt year @ ''_'' @ exam_type @ ''_exams''), w1))"
  using assms
  by (simp add: create_exam_table_def set_exam_table_name_def fmt_def Let_def
      except_OperationalError_Inl)

lemma insert_exam_error:
  assumes "exam_type \<in> {''prelim'', ''final''}"
    and "generate_insert_exam_query (fmt (dm_table_name self)) exam_type = Inr q"
    and "execute_commit q (if exam_type = ''prelim'' then [code, date, locations]
                           else [code, date, time, test_type, locations]) w = (Inl e, w1)"
  shows "insert_exam self code date locations exam_type time test_type w =
     (if e = OperationalError
      then (Inr False, print (''Error: Error inserting exam record: '', Some e) w1)
      else (Inl e, w1))"
  using assms
  by (auto simp: insert_exam_def str_lower_prelim str_lower_final except_OperationalError_Inl)

lemma update_exam_error:
  assumes "exam_type \<in> {''prelim'', ''final''}"
    and "generate_update_exam_query (fmt (dm_table_name self)) exam_type = Inr q"
    and "execute_commit q (if exam_type = ''prelim'' then [code, date, locations]
                           else [code, date, time, test_type, locations]) w = (Inl e, w1)"
  shows "update_exam self code date locations exam_type time test_type w =
     (if e = OperationalError
      then (Inr False, print (''Error: Error updating exam record: '', Some e) w1)
      else (Inl e, w1))"
  using assms
  by (auto simp: update_exam_def str_lower_prelim str_lower_final except_OperationalError_Inl)

lemma fetch_exam_error:
  assumes "db_execute (SelectAllWhere (Quoted (fmt (dm_table_name self))) ''course_code'')
             [Some course_code] (w_db w) = (Inl e, d)"
  shows "fetch_exam self course_code exam_type w =
     (if e = OperationalError
      then (Inr (Bool False), print (''Error: Error fetching exam records: '', Some e) (w\<lparr>w_db := d\<rparr>))
      else (Inl e, w\<lparr>w_db := d\<rparr>))"
  using assms
  by (simp add: fetch_exam_def except_OperationalError_Inl)

text \<open>
  C9 (amended).  \<^verbatim>\<open>scrape_course_info\<close> never raises: a network error, an HTTP error
  status or a page without the expected elements is caught, printed and answered with
  \<^verbatim>\<open>False\<close>; \<^verbatim>\<open>save_to_text_file\<close> does the same with a file error.
  \<^verbatim>\<open>process_exam_data\<close> catches a missing file only: what parsing raises goes on to the
  caller.  The store's operations catch \<^verbatim>\<open>OperationalError\<close> only, print it and return
  \<^verbatim>\<open>False\<close>; any other exception of the database goes on to the caller.
\<close>

theorem failures_caught_or_propagated:
  "(\<exists>r scr' w'. scrape_course_info scr w = (Inr r, scr', w')) \<and>
   (w_http w (generate_url scr) = Inl e \<longrightarrow>
      scrape_course_info scr w =
        (Inr (Bool False), scr, print (''Error scraping course information: '', Some e) w)) \<and>
   (w_http w (generate_url scr) = Inr resp \<longrightarrow>
    400 \<le> status_code resp \<and> status_code resp < 600 \<longrightarrow>
      scrape_course_info scr w =
        (Inr (Bool False), scr,
         print (''Error scraping course information: '', Some HTTPError) w)) \<and>
   (w_http w (generate_url scr) = Inr resp \<longrightarrow>
    \<not> (400 \<le> status_code resp \<and> status_code resp < 600) \<longrightarrow>
    parse_html scr (content resp) w = (Inl e, scr1, w1) \<longrightarrow>
      scrape_course_info scr w =
        (Inr (Bool False), scr1, print (''Error scraping course information: '', Some e) w1)) \<and>
   (w_write_error w fname = Some e \<longrightarrow>
      save_to_text_file fname fdata w =
        (Inr False, print (''Error saving data to file: '', Some e) w)) \<and>
   (w_files w fpath = None \<longrightarrow>
      process_exam_data scr (Some fpath) w =
        (Inr (Bool False),
         print (''Error: File '' @ [CHR 0x27] @ fpath @ [CHR 0x27] @ '' not found.'', None) w)) \<and>
   (w_files w fpath = Some ftext \<longrightarrow>
    parse_exam_file (ws_semester scr) (ws_exam_type scr) (file_lines ftext) = Inl e \<longrightarrow>
      process_exam_data scr (Some fpath) w = (Inl e, w)) \<and>
   (generate_create_table_query (semester @ ''_'' @ fmt year @ ''_'' @ exam_type @ ''_exams'')
      exam_type = Inr qc \<longrightarrow>
    execute_commit qc [] w = (Inl e, w1) \<longrightarrow>
      create_exam_table self semester exam_type year w =
        (if e = OperationalError
         then (Inr False,
               set_exam_table_name self (semester @ ''_'' @ fmt year @ ''_'' @ exam_type @ ''_exams''),
               print (''Error: Error creating table in PostgreSQL: '', Some e) w1)
         else (Inl e,
               set_exam_table_name self (semester @ ''_'' @ fmt year @ ''_'' @ exam_type @ ''_exams''),
               w1))) \<and>
   (exam_type \<in> {''prelim'', ''final''} \<longrightarrow>
    generate_insert_exam_query (fmt (dm_table_name self)) exam_type = Inr qi \<longrightarrow>
    execute_commit qi (if exam_type = ''prelim'' then [code, date, locations]
                       else [code, date, time, test_type, locations]) w = (Inl e, w1) \<longrightarrow>
      insert_exam self code date locations exam_type time test_type w =
        (if e = OperationalError
         then (Inr False, print (''Error: Error inserting exam record: '', Some e) w1)
         else (Inl e, w1))) \<and>
   (exam_type \<in> {''prelim'', ''final''} \<longrightarrow>
    generate_update_exam_query (fmt (dm_table_name self)) exam_type = Inr qu \<longrightarrow>
    execute_commit qu (if exam_type = ''prelim'' then [code, date, locations]
                       else [code, date, time, test_type, locations]) w = (Inl e, w1) \<longrightarrow>
      update_exam self code date locations exam_type time test_type w =
        (if e = OperationalError
         then (Inr False, print (''Error: Error updating exam record: '', Some e) w1)
         else (Inl e, w1))) \<and>
   (db_execute (SelectAllWhere (Quoted (fmt (dm_table_name self))) ''course_code'')
      [Some course_code] (w_db w) = (Inl e, d) \<longrightarrow>
      fetch_exam self course_code exam_type w =
        (if e = OperationalError
         then (Inr (Bool False),
               print (''Error: Error fetching exam records: '', Some e) (w\<lparr>w_db := d\<rparr>))
         else (Inl e, w\<lparr>w_db := d\<rparr>)))"
proof (intro conjI impI)
  show "\<exists>r scr' w'. scrape_course_info scr w = (Inr r, scr', w')"
    by (rule scrape_course_info_returns)
qed (erule scrape_course_info_network_error scrape_course_info_status_error
       scrape_course_info_page_error save_to_text_file_error process_exam_data_missing
       process_exam_data_propagates create_exam_table_error insert_exam_error
       update_exam_error fetch_exam_error; assumption)+

text \<open>
  C9 with no exception ever leaving an operation does not hold.  An insert into a
  table that does not exist raises \<^verbatim>\<open>ProgrammingError\<close> to the caller of
  \<^verbatim>\<open>insert_exam\<close>, and a listing with the line \<^verbatim>\<open>CS 2110\<close> raises \<^verbatim>\<open>IndexError\<close>
  to the caller of \<^verbatim>\<open>process_exam_data\<close>.
\<close>

theorem failures_caught_counterexample:
  "fst (insert_exam (example_manager ''fall'' ''prelim'')
          (Some ''CS 2110'') (Some ''10/15'') (Some ''Statler Hall'') ''prelim'' None None
          (example_world ''fall 2024 prelim exams'' []))
     = Inl ProgrammingError \<and>
   fst (process_exam_data (example_scraper ''fall'' ''prelim'') (Some ''exams.txt'')
          ((example_world ''fall 2024 prelim exams'' [])
             \<lparr>w_files := (\<lambda>path. if path = ''exams.txt'' then Some ''CS 2110'' else None)\<rparr>))
     = Inl IndexError"
  by code_simp

text \<open>
  A network that is down, an insert on which the server reports \<^verbatim>\<open>OperationalError\<close>
  and one on which it reports \<^verbatim>\<open>IntegrityError\<close>.
\<close>

theorem failures_caught_or_propagated_witness:
  "scrape_course_info (example_scraper ''fall'' ''prelim'')
      ((example_world ''fall 2024 prelim exams'' [])\<lparr>w_http := (\<lambda>url. Inl RequestException)\<rparr>)
     = (Inr (Bool False), example_scraper ''fall'' ''prelim'',
        (example_world ''fall 2024 prelim exams'' [])
          \<lparr>w_http := (\<lambda>url. Inl RequestException),
           w_stdout := [(''Error scraping course information: '', Some RequestException)]\<rparr>) \<and>
   fst (insert_exam ((example_manager ''fall'' ''prelim'')\<lparr>dm_table_name := Some ''t''\<rparr>)
          (Some ''CS 2110'') (Some ''10/15'') (Some ''Statler Hall'') ''prelim'' None None
          (example_world ''fall 2024 prelim exams'' [Some OperationalError])) = Inr False \<and>
   w_stdout (snd (insert_exam ((example_manager ''fall'' ''prelim'')\<lparr>dm_table_name := Some ''t''\<rparr>)
          (Some ''CS 2110'') (Some ''10/15'') (Some ''Statler Hall'') ''prelim'' None None
          (example_world ''fall 2024 prelim exams'' [Some OperationalError])))
     = [(''Error: Error inserting exam record: '', Some OperationalError)] \<and>
   fst (insert_exam ((example_manager ''fall'' ''prelim'')\<lparr>dm_table_name := Some ''t''\<rparr>)
          (Some ''CS 2110'') (Some ''10/15'') (Some ''Statler Hall'') ''prelim'' None None
          (example_world ''fall 2024 prelim exams'' [Some IntegrityError])) = Inl IntegrityError"
proof -
  let ?w0 = "example_world ''fall 2024 prelim exams''"
  let ?scr = "example_scraper ''fall'' ''prelim''"
  let ?m = "(example_manager ''fall'' ''prelim'')\<lparr>dm_table_name := Some ''t''\<rparr>"
  let ?q = "InsertInto (Bare ''t'') [''course_code'', ''exam_date'', ''exam_locations''] 3"
  let ?ps = "[Some ''CS 2110'', Some ''10/15'', Some ''Statler Hall'']"
  have net: "w_http ((?w0 [])\<lparr>w_http := (\<lambda>url. Inl RequestException)\<rparr>) (generate_url ?scr)
               = Inl RequestException" by simp
  have a: "scrape_course_info ?scr ((?w0 [])\<lparr>w_http := (\<lambda>url. Inl RequestException)\<rparr>) =
      (Inr (Bool False), ?scr,
       print (''Error scraping course information: '', Some RequestException)
         ((?w0 [])\<lparr>w_http := (\<lambda>url. Inl RequestException)\<rparr>))"
    by (rule failures_caught_or_propagated[where scr = ?scr and e = RequestException
          and w = "(?w0 [])\<lparr>w_http := (\<lambda>url. Inl RequestException)\<rparr>",
          THEN conjunct2, THEN conjunct1, rule_format, OF net])
  have ty: "''prelim'' \<in> {''prelim'', ''final''}" by simp
  have gen: "generate_insert_exam_query (fmt (dm_table_name ?m)) ''prelim'' = Inr ?q"
    by (simp add: generate_insert_exam_query_def fmt_def str_lower_prelim)
  have ex: "execute_commit ?q (if ''prelim'' = ''prelim'' then ?ps else [Some ''CS 2110'',
               Some ''10/15'', None, None, Some ''Statler Hall'']) (?w0 [Some e]) =
            (Inl e, (?w0 [Some e])\<lparr>w_db := (empty_database [])\<lparr>db_aborted := True\<rparr>\<rparr>)" for e
    by (simp add: execute_commit_def db_execute_def placeholders_def example_world_def
        empty_database_def)
  have ins: "insert_exam ?m (Some ''CS 2110'') (Some ''10/15'') (Some ''Statler Hall'') ''prelim''
               None None (?w0 [Some e]) =
      (if e = OperationalError
       then (Inr False, print (''Error: Error inserting exam record: '', Some e)
               ((?w0 [Some e])\<lparr>w_db := (empty_database [])\<lparr>db_aborted := True\<rparr>\<rparr>))
       else (Inl e, (?w0 [Some e])\<lparr>w_db := (empty_database [])\<lparr>db_aborted := True\<rparr>\<rparr>))" for e
    by (rule failures_caught_or_propagated[where self = ?m and exam_type = "''prelim''"
          and w = "?w0 [Some e]" and e = e,
          THEN conjunct2, THEN conjunct2, THEN conjunct2, THEN conjunct2, THEN conjunct2,
          THEN conjunct2, THEN conjunct2, THEN conjunct2, THEN conjunct1, rule_format,
          OF ty gen ex[of e]])
  show ?thesis
    unfolding a ins[of OperationalError] ins[of IntegrityError]
    by (simp add: print_def example_world_def)
qed

section \<open>An unknown exam type at the entry points of the store\<close>

lemma lower_char_idem: "lower_char (lower_char c) = lower_char c"
  by (auto simp: lower_char_def Let_def)

lemma str_lower_idem: "str_lower (str_lower s) = str_lower s"
  by (simp add: str_lower_def lower_char_idem)

lemma create_exam_table_unknown:
  assumes "str_lower exam_type \<notin> {''prelim'', ''final''}"
  shows "create_exam_table self semester exam_type year w =
     (Inl (ValueError ''Unknown exam type''),
      set_exam_table_name self (semester @ ''_'' @ fmt year @ ''_'' @ exam_type @ ''_exams''), w)"
  using assms
  by (simp add: create_exam_table_def generate_create_table_query_def Let_def
      except_OperationalError_Inl)

lemma update_exam_unknown:
  assumes "str_lower exam_type \<notin> {''prelim'', ''final''}"
  shows "update_exam self code date locations exam_type time test_type w =
     (Inl (ValueError ''Unknown exam type''), w)"
  using assms
  by (simp add: update_exam_def generate_update_exam_query_def except_OperationalError_Inl)

lemma format_exam_records_unknown:
  assumes "exam_type \<notin> {''prelim'', ''final''}"
  shows "format_exam_records exam_records exam_type =
     (if exam_records = [] then Inr [] else Inl (ValueError ''Unknown exam type''))"
  using assms
  by (cases exam_records) (simp_all add: format_exam_record_def bnd_def)

lemma db_execute_select_tables:
  assumes "db_execute (SelectAllWhere i c) ps d = (r, d')"
  shows "db_working d' = db_working d \<and> db_committed d' = db_committed d"
  using assms
  by (auto simp: db_execute_def run_sql_def Let_def
      split: if_splits list.splits option.splits sum.splits prod.splits)

lemma not_known_lower:
  assumes "str_lower exam_type \<notin> {''prelim'', ''final''}"
  shows "exam_type \<notin> {''prelim'', ''final''}"
  using assms str_lower_prelim str_lower_final by auto

lemma fetch_exam_unknown:
  assumes "exam_type \<notin> {''prelim'', ''final''}"
    and "fetch_exam self course_code exam_type w = (r, w')"
  shows "w_files w' = w_files w \<and> db_working (w_db w') = db_working (w_db w)
         \<and> db_committed (w_db w') = db_committed (w_db w)"
proof -
  obtain r0 d where ex: "db_execute (SelectAllWhere (Quoted (fmt (dm_table_name self))) ''course_code'')
             [Some course_code] (w_db w) = (r0, d)"
    by (cases "db_execute (SelectAllWhere (Quoted (fmt (dm_table_name self))) ''course_code'')
             [Some course_code] (w_db w)") auto
  note tabs = db_execute_select_tables[OF ex]
  show ?thesis
  proof (cases r0)
    case (Inl e)
    with assms(2) ex tabs show ?thesis
      by (auto simp: fetch_exam_def except_OperationalError_Inl print_def split: if_splits)
  next
    case (Inr rows)
    with assms ex tabs show ?thesis
      by (auto simp: fetch_exam_def format_exam_records_unknown except_OperationalError_Inl
          except_OperationalError_Inr print_def split: if_splits)
  qed
qed

lemma fetch_exam_unknown_result:
  assumes "exam_type \<notin> {''prelim'', ''final''}"
    and "db_execute (SelectAllWhere (Quoted (fmt (dm_table_name self))) ''course_code'')
             [Some course_code] (w_db w) = (Inr exam_records, d)"
  shows "fetch_exam self course_code exam_type w =
     (if exam_records = [] then Inr (Value []) else Inl (ValueError ''Unknown exam type''),
      w\<lparr>w_db := d\<rparr>)"
  using assms
  by (simp add: fetch_exam_def format_exam_records_unknown except_OperationalError_Inl
      except_OperationalError_Inr)

lemma save_to_text_file_db:
  "save_to_text_file fname fdata w = (r, w') \<Longrightarrow> w_db w' = w_db w"
  by (auto simp: save_to_text_file_def ws_success_response_def ws_error_response_def print_def
      split: option.splits)

lemma parse_html_db:
  "parse_html scr sp w = (r, scr', w') \<Longrightarrow> w_db w' = w_db w"
  by (auto simp: parse_html_def Let_def dest: save_to_text_file_db
      split: option.splits sum.splits prod.splits)

lemma scrape_course_info_db:
  "scrape_course_info scr w = (r, scr', w') \<Longrightarrow> w_db w' = w_db w"
  by (auto simp: scrape_course_info_def ws_error_response_def print_def Let_def
      dest: parse_html_db split: sum.splits prod.splits if_splits)

lemma process_exam_data_frame:
  "process_exam_data scr fpath w = (r, w') \<Longrightarrow> w_db w' = w_db w \<and> w_files w' = w_files w"
  by (auto simp: process_exam_data_def ws_error_response_def print_def
      split: option.splits sum.splits)

lemma process_exam_data_unknown:
  assumes "str_lower (ws_exam_type scr) \<notin> {''prelim'', ''final''}"
    and "process_exam_data scr (Some fpath) w = (Inl e, w')"
  shows "e = ValueError ''Unknown Exam Type''"
  using assms
  by (auto simp: process_exam_data_def ws_error_response_def parse_exam_file_def
      parse_exam_loop_unknown split: option.splits sum.splits if_splits)

lemma populate_exam_table_unknown:
  assumes "str_lower exam_type \<notin> {''prelim'', ''final''}"
    and "scrape_course_info (dm_scraper self) w = (scraped, scr, w1)"
  shows "populate_exam_table self semester exam_type w =
     (case process_exam_data scr (ws_file_name scr) w1 of
        (Inl e, w2) \<Rightarrow> (Inl e, self\<lparr>dm_scraper := scr\<rparr>, w2)
      | (Inr exams_data, w2) \<Rightarrow>
          (Inl (ValueError ''Unknown exam type''),
           set_exam_table_name (self\<lparr>dm_scraper := scr\<rparr>)
             (semester @ ''_'' @ fmt (ws_year scr) @ ''_'' @ str_lower exam_type @ ''_exams''),
           w2))"
proof -
  have low: "str_lower (str_lower exam_type) \<notin> {''prelim'', ''final''}"
    using assms(1) by (simp add: str_lower_idem)
  show ?thesis
    by (simp add: populate_exam_table_def assms(2) create_exam_table_unknown[OF low]
        split: prod.splits sum.splits)
qed

lemma populate_exam_table_unknown_effects:
  assumes "str_lower exam_type \<notin> {''prelim'', ''final''}"
    and "scrape_course_info (dm_scraper self) w = (scraped, scr, w1)"
    and "populate_exam_table self semester exam_type w = (rp, self', wp)"
  shows "(\<exists>e. rp = Inl e) \<and> w_db wp = w_db w \<and> w_files wp = w_files w1 \<and> dm_scraper self' = scr
         \<and> (ws_file_name scr \<noteq> None \<and> str_lower (ws_exam_type scr) \<notin> {''prelim'', ''final''}
              \<longrightarrow> (\<exists>msg. rp = Inl (ValueError msg)))"
proof -
  obtain pr w2 where pe: "process_exam_data scr (ws_file_name scr) w1 = (pr, w2)"
    by (cases "process_exam_data scr (ws_file_name scr) w1") auto
  have frame: "w_db w2 = w_db w \<and> w_files w2 = w_files w1"
    using process_exam_data_frame[OF pe] scrape_course_info_db[OF assms(2)] by simp
  show ?thesis
  proof (cases pr)
    case (Inl e)
    then have res: "rp = Inl e" "self' = self\<lparr>dm_scraper := scr\<rparr>" "wp = w2"
      using assms(3) pe by (simp_all add: populate_exam_table_unknown[OF assms(1,2)])
    have "e = ValueError ''Unknown Exam Type''"
      if "ws_file_name scr \<noteq> None" "str_lower (ws_exam_type scr) \<notin> {''prelim'', ''final''}"
    proof -
      from that(1) obtain fpath where "ws_file_name scr = Some fpath" by auto
      with pe Inl have "process_exam_data scr (Some fpath) w1 = (Inl e, w2)" by simp
      from process_exam_data_unknown[OF that(2) this] show ?thesis .
    qed
    with res frame show ?thesis by auto
  next
    case (Inr x)
    then have "rp = Inl (ValueError ''Unknown exam type'')" "wp = w2"
      "self' = set_exam_table_name (self\<lparr>dm_scraper := scr\<rparr>)
             (semester @ ''_'' @ fmt (ws_year scr) @ ''_'' @ str_lower exam_type @ ''_exams'')"
      using assms(3) pe by (simp_all add: populate_exam_table_unknown[OF assms(1,2)])
    with frame show ?thesis by (simp add: set_exam_table_name_def)
  qed
qed

text \<open>
  C4 (amended).  Let the exam type, in lower case, be neither \<^verbatim>\<open>prelim\<close> nor \<^verbatim>\<open>final\<close>.
  \<^verbatim>\<open>update_exam\<close> raises \<^verbatim>\<open>ValueError\<close> and changes nothing.  \<^verbatim>\<open>create_exam_table\<close>
  raises \<^verbatim>\<open>ValueError\<close> and leaves the world as it was, but it has set the selected table
  name before.  \<^verbatim>\<open>fetch_exam\<close> changes no table and no file; when its query returns no
  row it returns the empty list, and it raises \<^verbatim>\<open>ValueError\<close> only on the first row.
  \<^verbatim>\<open>populate_exam_table\<close> always ends in an exception and never touches the database, but
  it scrapes first: the files are those the scrape left, the scraper is the one the
  scrape left, and the exception is a \<^verbatim>\<open>ValueError\<close> when the scrape left a file name and
  the scraper's own exam type is unknown too.
\<close>

theorem unknown_exam_type_entry_points:
  assumes "str_lower exam_type \<notin> {''prelim'', ''final''}"
  shows
   "update_exam self code date locations exam_type time test_type w =
      (Inl (ValueError ''Unknown exam type''), w) \<and>
    create_exam_table self semester exam_type year w =
      (Inl (ValueError ''Unknown exam type''),
       set_exam_table_name self (semester @ ''_'' @ fmt year @ ''_'' @ exam_type @ ''_exams''), w) \<and>
    (fetch_exam self course_code exam_type w = (rq, wq) \<longrightarrow>
       w_files wq = w_files w \<and> db_working (w_db wq) = db_working (w_db w)
       \<and> db_committed (w_db wq) = db_committed (w_db w)) \<and>
    (db_execute (SelectAllWhere (Quoted (fmt (dm_table_name self))) ''course_code'')
        [Some course_code] (w_db w) = (Inr exam_records, d) \<longrightarrow>
       fetch_exam self course_code exam_type w =
         (if exam_records = [] then Inr (Value []) else Inl (ValueError ''Unknown exam type''),
          w\<lparr>w_db := d\<rparr>)) \<and>
    (scrape_course_info (dm_scraper self) w = (scraped, scr, w1) \<longrightarrow>
     populate_exam_table self semester exam_type w = (rp, self', wp) \<longrightarrow>
       (\<exists>e. rp = Inl e) \<and> w_db wp = w_db w \<and> w_files wp = w_files w1 \<and> dm_scraper self' = scr
       \<and> (ws_file_name scr \<noteq> None \<and> str_lower (ws_exam_type scr) \<notin> {''prelim'', ''final''}
            \<longrightarrow> (\<exists>msg. rp = Inl (ValueError msg))))"
proof (intro conjI impI)
  show "update_exam self code date locations exam_type time test_type w =
      (Inl (ValueError ''Unknown exam type''), w)"
    by (rule update_exam_unknown[OF assms])
  show "create_exam_table self semester exam_type year w =
      (Inl (ValueError ''Unknown exam type''),
       set_exam_table_name self (semester @ ''_'' @ fmt year @ ''_'' @ exam_type @ ''_exams''), w)"
    by (rule create_exam_table_unknown[OF assms])
  show "fetch_exam self course_code exam_type w =
         (if exam_records = [] then Inr (Value []) else Inl (ValueError ''Unknown exam type''),
          w\<lparr>w_db := d\<rparr>)"
    if "db_execute (SelectAllWhere (Quoted (fmt (dm_table_name self))) ''course_code'')
        [Some course_code] (w_db w) = (Inr exam_records, d)"
    by (rule fetch_exam_unknown_result[OF not_known_lower[OF assms] that])
next
  assume f: "fetch_exam self course_code exam_type w = (rq, wq)"
  note fr = fetch_exam_unknown[OF not_known_lower[OF assms] f]
  from fr show "w_files wq = w_files w" by simp
  from fr show "db_working (w_db wq) = db_working (w_db w)" by simp
  from fr show "db_committed (w_db wq) = db_committed (w_db w)" by simp
next
  assume s: "scrape_course_info (dm_scraper self) w = (scraped, scr, w1)"
    and p: "populate_exam_table self semester exam_type w = (rp, self', wp)"
  note pr = populate_exam_table_unknown_effects[OF assms s p]
  from pr show "\<exists>e. rp = Inl e" by simp
  from pr show "w_db wp = w_db w" by simp
  from pr show "w_files wp = w_files w1" by simp
  from pr show "dm_scraper self' = scr" by simp
  from pr show "\<exists>msg. rp = Inl (ValueError msg)"
    if "ws_file_name scr \<noteq> None \<and> str_lower (ws_exam_type scr) \<notin> {''prelim'', ''final''}"
    using that by blast
qed

text \<open>
  C4 with a failure free of side effects at every entry point does not hold.  With
  exam type \<^verbatim>\<open>midterm\<close>, table creation fails after it has changed the selected table
  name, populate fails after the scraped file is written, and a fetch that matches no
  row does not fail at all.
\<close>

theorem unknown_exam_type_counterexample:
  "dm_table_name (example_manager ''fall'' ''midterm'') = None \<and>
   dm_table_name (fst (snd (create_exam_table (example_manager ''fall'' ''midterm'')
       ''fall'' ''midterm'' (Some ''2024'') (example_world ''fall 2024 exams'' []))))
     = Some ''fall_2024_midterm_exams'' \<and>
   w_files (example_world ''fall 2024 exams'' []) ''fall-2024-midterm-exams.txt'' = None \<and>
   fst (populate_exam_table (example_manager ''fall'' ''midterm'') ''fall'' ''midterm''
          (example_world ''fall 2024 exams'' []))
     = Inl (ValueError ''Unknown Exam Type'') \<and>
   w_files (snd (snd (populate_exam_table (example_manager ''fall'' ''midterm'') ''fall'' ''midterm''
          (example_world ''fall 2024 exams'' [])))) ''fall-2024-midterm-exams.txt'' \<noteq> None \<and>
   fst (fetch_exam ((example_manager ''fall'' ''midterm'')\<lparr>dm_table_name := Some ''t''\<rparr>)
          ''CS 2110'' ''midterm''
          ((example_world ''fall 2024 exams'' [])
             \<lparr>w_db := (empty_database [])
                \<lparr>db_working := (\<lambda>n. if n = ''t''
                     then Some \<lparr>t_columns = [''course_code'', ''exam_date'', ''exam_locations''],
                                t_rows = []\<rparr>
                     else None)\<rparr>\<rparr>))
     = Inr (Value [])"
  by code_simp

text \<open>
  Exam type \<^verbatim>\<open>midterm\<close> on the example page.
\<close>

theorem unknown_exam_type_entry_points_witness:
  "str_lower ''midterm'' \<notin> {''prelim'', ''final''} \<and>
   update_exam (example_manager ''fall'' ''midterm'') (Some ''CS 2110'') (Some ''10/15'')
       (Some ''Statler Hall'') ''midterm'' None None (example_world ''fall 2024 exams'' [])
     = (Inl (ValueError ''Unknown exam type''), example_world ''fall 2024 exams'' []) \<and>
   create_exam_table (example_manager ''fall'' ''midterm'') ''fall'' ''midterm'' (Some ''2024'')
       (example_world ''fall 2024 exams'' [])
     = (Inl (ValueError ''Unknown exam type''),
        (example_manager ''fall'' ''midterm'')\<lparr>dm_table_name := Some ''fall_2024_midterm_exams''\<rparr>,
        example_world ''fall 2024 exams'' []) \<and>
   (\<exists>msg. fst (populate_exam_table (example_manager ''fall'' ''midterm'') ''fall'' ''midterm''
                (example_world ''fall 2024 exams'' [])) = Inl (ValueError msg)) \<and>
   w_db (snd (snd (populate_exam_table (example_manager ''fall'' ''midterm'') ''fall'' ''midterm''
                (example_world ''fall 2024 exams'' []))))
     = w_db (example_world ''fall 2024 exams'' [])"
proof -
  let ?m = "example_manager ''fall'' ''midterm''"
  let ?w = "example_world ''fall 2024 exams'' []"
  let ?s = "scrape_course_info (dm_scraper ?m) ?w"
  let ?p = "populate_exam_table ?m ''fall'' ''midterm'' ?w"
  have h: "str_lower ''midterm'' \<notin> {''prelim'', ''final''}" by code_simp
  note t = unknown_exam_type_entry_points[OF h, where self = ?m and w = ?w
      and semester = "''fall''" and year = "Some ''2024''"
      and scraped = "fst ?s" and scr = "fst (snd ?s)" and ?w1.0 = "snd (snd ?s)"
      and rp = "fst ?p" and self' = "fst (snd ?p)" and wp = "snd (snd ?p)"]
  have u: "update_exam ?m (Some ''CS 2110'') (Some ''10/15'') (Some ''Statler Hall'') ''midterm''
             None None ?w = (Inl (ValueError ''Unknown exam type''), ?w)"
    by (rule t[THEN conjunct1])
  have c: "create_exam_table ?m ''fall'' ''midterm'' (Some ''2024'') ?w =
      (Inl (ValueError ''Unknown exam type''),
       set_exam_table_name ?m (''fall'' @ ''_'' @ fmt (Some ''2024'') @ ''_'' @ ''midterm'' @ ''_exams''),
       ?w)"
    by (rule t[THEN conjunct2, THEN conjunct1])
  have name: "ws_file_name (fst (snd ?s)) \<noteq> None" by code_simp
  have ty: "str_lower (ws_exam_type (fst (snd ?s))) \<notin> {''prelim'', ''final''}" by code_simp
  have p: "(\<exists>e. fst ?p = Inl e) \<and> w_db (snd (snd ?p)) = w_db ?w
           \<and> w_files (snd (snd ?p)) = w_files (snd (snd ?s)) \<and> dm_scraper (fst (snd ?p)) = fst (snd ?s)
           \<and> (ws_file_name (fst (snd ?s)) \<noteq> None
                \<and> str_lower (ws_exam_type (fst (snd ?s))) \<notin> {''prelim'', ''final''}
               \<longrightarrow> (\<exists>msg. fst ?p = Inl (ValueError msg)))"
    by (rule t[THEN conjunct2, THEN conjunct2, THEN conjunct2, THEN conjunct2, rule_format]) simp_all
  from p name ty have p1: "\<exists>msg. fst ?p = Inl (ValueError msg)" by blast
  from p have p2: "w_db (snd (snd ?p)) = w_db ?w" by blast
  show ?thesis
    using h u c p1 p2 by (simp add: set_exam_table_name_def fmt_def)
qed

section \<open>Rows are committed one by one\<close>

lemma table_extends_refl: "table_extends t t"
  by (simp add: table_extends_def)

lemma table_extends_trans:
  "table_extends t3 t2 \<Longrightarrow> table_extends t2 t1 \<Longrightarrow> table_extends t3 t1"
  by (auto simp: table_extends_def intro: prefix_order.trans)

lemma tables_extend_refl: "tables_extend tabs tabs"
  by (auto simp: tables_extend_def table_extends_refl)

lemma tables_extend_trans:
  assumes "tables_extend c b" and "tables_extend b a"
  shows "tables_extend c a"
  unfolding tables_extend_def
proof (intro allI impI)
  fix n t assume "a n = Some t"
  with assms(2) obtain t' where 1: "b n = Some t'" "table_extends t' t"
    by (auto simp: tables_extend_def)
  with assms(1) obtain t'' where 2: "c n = Some t''" "table_extends t'' t'"
    by (auto simp: tables_extend_def)
  from 1 2 show "\<exists>t'. c n = Some t' \<and> table_extends t' t"
    by (auto intro: table_extends_trans)
qed

lemma tables_extend_append_row:
  assumes "tabs name = Some t"
  shows "tables_extend (tabs(name \<mapsto> t\<lparr>t_rows := t_rows t @ [row]\<rparr>)) tabs"
  using assms by (auto simp: tables_extend_def table_extends_def)

lemma run_sql_insert_extends:
  assumes "run_sql (InsertInto i cols n) ps tabs = Inr (res, tabs')"
  shows "tables_extend tabs' tabs"
  using assms
  by (auto simp: run_sql_def Let_def tables_extend_append_row
      split: option.splits if_splits)

lemma db_execute_insert_extends:
  assumes "db_execute (InsertInto i cols n) ps d = (r, d')"
  shows "db_committed d' = db_committed d \<and> tables_extend (db_working d') (db_working d)"
  using assms
  by (auto simp: db_execute_def Let_def tables_extend_refl dest: run_sql_insert_extends
      split: if_splits list.splits option.splits sum.splits prod.splits)

lemma db_commit_extends:
  assumes "db_commit d = (r, d')" and "tables_extend (db_working d) (db_committed d)"
  shows "tables_extend (db_committed d') (db_committed d)
         \<and> tables_extend (db_working d') (db_committed d')"
  using assms
  by (auto simp: db_commit_def Let_def tables_extend_refl
      split: if_splits list.splits option.splits)

lemma w_db_print: "w_db (print l w) = w_db w"
  by (simp add: print_def)

lemma execute_commit_insert_extends:
  assumes "execute_commit (InsertInto i cols n) ps w = (r, w')"
    and "tables_extend (db_working (w_db w)) (db_committed (w_db w))"
  shows "tables_extend (db_committed (w_db w')) (db_committed (w_db w))
         \<and> tables_extend (db_working (w_db w')) (db_committed (w_db w'))"
proof -
  obtain r0 d where ex: "db_execute (InsertInto i cols n) ps (w_db w) = (r0, d)"
    by (cases "db_execute (InsertInto i cols n) ps (w_db w)") auto
  from db_execute_insert_extends[OF ex]
  have c: "db_committed d = db_committed (w_db w)"
    and e: "tables_extend (db_working d) (db_working (w_db w))" by simp_all
  from tables_extend_trans[OF e assms(2)]
  have inv: "tables_extend (db_working d) (db_committed d)" by (simp add: c)
  show ?thesis
  proof (cases r0)
    case (Inl err)
    with assms(1) ex have "w' = w\<lparr>w_db := d\<rparr>" by (simp add: execute_commit_def)
    with inv c show ?thesis by (simp add: tables_extend_refl)
  next
    case (Inr res)
    obtain r1 d' where co: "db_commit d = (r1, d')" by (cases "db_commit d") auto
    from assms(1) ex Inr co have "w' = w\<lparr>w_db := d'\<rparr>"
      by (auto simp: execute_commit_def split: sum.splits)
    with db_commit_extends[OF co inv] c show ?thesis by simp
  qed
qed

lemma generate_insert_exam_query_shape:
  "generate_insert_exam_query name exam_type = Inr q \<Longrightarrow> \<exists>i cols n. q = InsertInto i cols n"
  by (auto simp: generate_insert_exam_query_def split: if_splits)

lemma insert_exam_extends:
  assumes "insert_exam self code date locations exam_type time test_type w = (r, w')"
    and "tables_extend (db_working (w_db w)) (db_committed (w_db w))"
  shows "tables_extend (db_committed (w_db w')) (db_committed (w_db w))
         \<and> tables_extend (db_working (w_db w')) (db_committed (w_db w'))"
proof (cases "generate_insert_exam_query (fmt (dm_table_name self)) (str_lower exam_type)")
  case (Inl e)
  with assms(1) have "w' = w" by (simp add: insert_exam_def)
  with assms(2) show ?thesis by (simp add: tables_extend_refl)
next
  case (Inr q)
  then obtain i cols n where q: "q = InsertInto i cols n"
    by (auto dest: generate_insert_exam_query_shape)
  define body where "body =
     (if str_lower exam_type = ''prelim''
      then execute_commit q [code, date, locations] w
      else if str_lower exam_type = ''final''
      then execute_commit q [code, date, time, test_type, locations] w
      else (Inl (ValueError ''Unknown exam type''), w))"
  obtain rb wb where b: "body = (rb, wb)" by (cases body) auto
  have wb: "tables_extend (db_committed (w_db wb)) (db_committed (w_db w))
         \<and> tables_extend (db_working (w_db wb)) (db_committed (w_db wb))"
    using b assms(2) execute_commit_insert_extends[of i cols n _ w rb wb]
    by (auto simp: body_def q tables_extend_refl split: if_splits)
  have "w_db w' = w_db wb"
    using assms(1) Inr b
    by (auto simp: insert_exam_def body_def[symmetric] except_OperationalError_Inl
        except_OperationalError_Inr dm_success_response_def w_db_print
        split: sum.splits if_splits)
  with wb show ?thesis by simp
qed

lemma populate_rows_extends:
  assumes "populate_rows self exam_type exams_data w = (r, w')"
    and "tables_extend (db_working (w_db w)) (db_committed (w_db w))"
  shows "tables_extend (db_committed (w_db w')) (db_committed (w_db w))
         \<and> tables_extend (db_working (w_db w')) (db_committed (w_db w'))"
  using assms
proof (induction exams_data arbitrary: w)
  case Nil
  then show ?case by (simp add: tables_extend_refl)
next
  case (Cons exam_info exams_data)
  define step where "step =
     (if str_lower exam_type = ''final''
      then insert_exam self (map_of exam_info ''course_code'') (map_of exam_info ''exam_date'')
             (map_of exam_info ''exam_locations'') (str_lower exam_type)
             (map_of exam_info ''exam_time'') (map_of exam_info ''test_type'') w
      else insert_exam self (map_of exam_info ''course_code'') (map_of exam_info ''exam_date'')
             (map_of exam_info ''exam_locations'') (str_lower exam_type) None None w)"
  obtain r1 w1 where s: "step = (r1, w1)" by (cases step) auto
  have 1: "tables_extend (db_committed (w_db w1)) (db_committed (w_db w))
         \<and> tables_extend (db_working (w_db w1)) (db_committed (w_db w1))"
    using s Cons.prems(2) insert_exam_extends[of self _ _ _ _ _ _ w r1 w1]
    by (auto simp: step_def split: if_splits)
  have loop: "populate_rows self exam_type (exam_info # exams_data) w =
      (case r1 of Inl e \<Rightarrow> (Inl e, w1) | Inr b \<Rightarrow> populate_rows self exam_type exams_data w1)"
    using s by (auto simp: step_def Let_def split: if_splits)
  show ?case
  proof (cases r1)
    case (Inl e)
    with loop Cons.prems(1) have "w' = w1" by simp
    with 1 show ?thesis by simp
  next
    case (Inr b)
    with loop Cons.prems(1) have "populate_rows self exam_type exams_data w1 = (r, w')" by simp
    from Cons.IH[OF this] 1
    show ?thesis by (auto intro: tables_extend_trans)
  qed
qed

lemma execute_commit_done:
  assumes "execute_commit q ps w = (Inr res, w1)"
  shows "db_committed (w_db w1) = db_working (w_db w1) \<and> \<not> db_aborted (w_db w1)"
  using assms
  by (auto simp: execute_commit_def db_execute_def db_commit_def Let_def
      split: if_splits list.splits option.splits sum.splits prod.splits)

lemma insert_exam_done:
  assumes "insert_exam self code date locations exam_type time test_type w = (Inr True, w1)"
  shows "db_committed (w_db w1) = db_working (w_db w1) \<and> \<not> db_aborted (w_db w1)"
proof (cases "generate_insert_exam_query (fmt (dm_table_name self)) (str_lower exam_type)")
  case (Inl e)
  with assms show ?thesis by (simp add: insert_exam_def)
next
  case (Inr q)
  define body where "body =
     (if str_lower exam_type = ''prelim''
      then execute_commit q [code, date, locations] w
      else if str_lower exam_type = ''final''
      then execute_commit q [code, date, time, test_type, locations] w
      else (Inl (ValueError ''Unknown exam type''), w))"
  obtain rb wb where b: "body = (rb, wb)" by (cases body) auto
  from assms Inr b obtain res where rb: "rb = Inr res" and w1: "w_db w1 = w_db wb"
    by (cases rb)
      (auto simp: insert_exam_def body_def[symmetric] except_OperationalError_Inl
        except_OperationalError_Inr dm_success_response_def dm_error_response_def w_db_print
        split: if_splits)
  from b rb have "\<exists>ps. execute_commit q ps w = (Inr res, wb)"
    by (auto simp: body_def split: if_splits)
  then show ?thesis using execute_commit_done w1 by auto
qed

lemma prelim_columns_plain:
  "list_all plain_identifier [''course_code'', ''exam_date'', ''exam_locations'']"
  by code_simp

lemma prelim_columns_lower:
  "map str_lower [''course_code'', ''exam_date'', ''exam_locations'']
     = [''course_code'', ''exam_date'', ''exam_locations'']"
  by code_simp

lemma run_sql_insert_prelim:
  assumes "resolve i = Some name" and "tabs name = Some t"
    and "t_columns t = [''course_code'', ''exam_date'', ''exam_locations'']"
  shows "run_sql (InsertInto i [''course_code'', ''exam_date'', ''exam_locations''] 3)
           [Some code, Some date, Some locations] tabs =
         Inr ([], tabs(name \<mapsto> t\<lparr>t_rows := t_rows t @ [[code, date, locations]]\<rparr>))"
proof -
  have "run_sql (InsertInto i [''course_code'', ''exam_date'', ''exam_locations''] 3)
           [Some code, Some date, Some locations] tabs =
        (let cs = map str_lower [''course_code'', ''exam_date'', ''exam_locations''] in
         if \<not> list_all plain_identifier [''course_code'', ''exam_date'', ''exam_locations'']
            \<or> \<not> distinct cs \<or> length cs \<noteq> 3 \<or> \<not> set cs \<subseteq> set (t_columns t)
         then Inl ProgrammingError
         else
           let row = map (assigned cs [Some code, Some date, Some locations]) (t_columns t) in
           if None \<in> set row then Inl IntegrityError
           else Inr ([], tabs(name \<mapsto> t\<lparr>t_rows := t_rows t @ [map the row]\<rparr>)))"
    using assms(1,2) by (simp add: run_sql_def)
  also have "\<dots> = Inr ([], tabs(name \<mapsto> t\<lparr>t_rows := t_rows t @ [[code, date, locations]]\<rparr>))"
    unfolding prelim_columns_lower Let_def assms(3)
    using prelim_columns_plain by (simp add: assigned_def)
  finally show ?thesis .
qed

lemma insert_exam_prelim_row:
  assumes "str_lower exam_type = ''prelim''"
    and "resolve (Bare (fmt (dm_table_name self))) = Some name"
    and "db_working (w_db w) name = Some t"
    and "t_columns t = [''course_code'', ''exam_date'', ''exam_locations'']"
    and "insert_exam self (Some code) (Some date) (Some locations) exam_type time test_type w
           = (Inr True, w1)"
  shows "db_committed (w_db w1) name = Some (t\<lparr>t_rows := t_rows t @ [[code, date, locations]]\<rparr>)"
proof -
  let ?q = "InsertInto (Bare (fmt (dm_table_name self)))
              [''course_code'', ''exam_date'', ''exam_locations''] 3"
  have run: "run_sql ?q [Some code, Some date, Some locations] (db_working (w_db w)) =
      Inr ([], (db_working (w_db w))(name \<mapsto> t\<lparr>t_rows := t_rows t @ [[code, date, locations]]\<rparr>))"
    by (rule run_sql_insert_prelim[where tabs = "db_working (w_db w)", OF assms(2,3,4)])
  show ?thesis
    using assms(5)
    by (auto simp: insert_exam_def assms(1) str_lower_prelim generate_insert_exam_query_def
        execute_commit_def db_execute_def db_commit_def placeholders_def run Let_def
        except_OperationalError_Inl except_OperationalError_Inr dm_success_response_def
        w_db_print
        split: if_splits list.splits option.splits)
qed

lemma insert_exam_operational_error:
  assumes "str_lower exam_type \<in> {''prelim'', ''final''}"
    and "generate_insert_exam_query (fmt (dm_table_name self)) (str_lower exam_type) = Inr q"
    and "db_execute q
           (if str_lower exam_type = ''prelim'' then [code, date, locations]
            else [code, date, time, test_type, locations])
           (w_db w) = (Inl OperationalError, d)"
  shows "insert_exam self code date locations exam_type time test_type w =
           (Inr False,
            print (''Error: Error inserting exam record: '', Some OperationalError) (w\<lparr>w_db := d\<rparr>))
         \<and> db_committed d = db_committed (w_db w)"
proof -
  obtain i cols n where q: "q = InsertInto i cols n"
    using assms(2) by (auto dest: generate_insert_exam_query_shape)
  have c: "db_committed d = db_committed (w_db w)"
    using assms(3) db_execute_insert_extends unfolding q by blast
  have "insert_exam self code date locations exam_type time test_type w =
           (Inr False,
            print (''Error: Error inserting exam record: '', Some OperationalError) (w\<lparr>w_db := d\<rparr>))"
  proof (cases "str_lower exam_type = ''prelim''")
    case True
    show ?thesis
      using assms(2,3)
      by (simp add: True insert_exam_def execute_commit_def except_OperationalError_Inl)
  next
    case False
    with assms(1) have fin: "str_lower exam_type = ''final''" by simp
    show ?thesis
      using assms(2,3)
      by (simp add: fin insert_exam_def execute_commit_def except_OperationalError_Inl)
  qed
  with c show ?thesis by simp
qed

lemma final_columns_plain:
  "list_all plain_identifier
     [''course_code'', ''exam_date'', ''exam_time'', ''exam_or_deliverable'', ''exam_locations'']"
  by code_simp

lemma final_columns_lower:
  "map str_lower [''course_code'', ''exam_date'', ''exam_time'', ''exam_or_deliverable'',
                  ''exam_locations'']
     = [''course_code'', ''exam_date'', ''exam_time'', ''exam_or_deliverable'', ''exam_locations'']"
  by code_simp

lemma run_sql_insert_final:
  assumes "resolve i = Some name" and "tabs name = Some t"
    and "t_columns t = [''course_code'', ''exam_date'', ''exam_time'', ''exam_or_deliverable'',
                        ''exam_locations'']"
  shows "run_sql (InsertInto i [''course_code'', ''exam_date'', ''exam_time'',
                                ''exam_or_deliverable'', ''exam_locations''] 5)
           [Some code, Some date, Some time, Some test_type, Some locations] tabs =
         Inr ([], tabs(name \<mapsto> t\<lparr>t_rows := t_rows t @ [[code, date, time, test_type, locations]]\<rparr>))"
proof -
  let ?cols = "[''course_code'', ''exam_date'', ''exam_time'', ''exam_or_deliverable'',
                ''exam_locations'']"
  let ?ps = "[Some code, Some date, Some time, Some test_type, Some locations]"
  have "run_sql (InsertInto i ?cols 5) ?ps tabs =
        (let cs = map str_lower ?cols in
         if \<not> list_all plain_identifier ?cols
            \<or> \<not> distinct cs \<or> length cs \<noteq> 5 \<or> \<not> set cs \<subseteq> set (t_columns t)
         then Inl ProgrammingError
         else
           let row = map (assigned cs ?ps) (t_columns t) in
           if None \<in> set row then Inl IntegrityError
           else Inr ([], tabs(name \<mapsto> t\<lparr>t_rows := t_rows t @ [map the row]\<rparr>)))"
    using assms(1,2) by (simp add: run_sql_def)
  also have "\<dots> = Inr ([], tabs(name \<mapsto> t\<lparr>t_rows := t_rows t @ [[code, date, time, test_type, locations]]\<rparr>))"
    unfolding final_columns_lower Let_def assms(3)
    using final_columns_plain by (simp add: assigned_def)
  finally show ?thesis .
qed

lemma no_fault_two:
  assumes "list_all (\<lambda>f. f = None) (take 2 fs)"
  shows "(case fs of Some e # rest \<Rightarrow> False | _ \<Rightarrow> True)
         \<and> (case tl fs of Some e # rest \<Rightarrow> False | _ \<Rightarrow> True) \<and> tl (tl fs) = drop 2 fs"
proof (cases fs)
  case Nil
  then show ?thesis by simp
next
  case (Cons a as)
  with assms show ?thesis
    by (cases as) (auto simp: numeral_2_eq_2 split: option.splits)
qed

lemma db_execute_ok:
  assumes "placeholders q = length ps"
    and "case db_faults d of Some e # rest \<Rightarrow> False | _ \<Rightarrow> True"
    and "\<not> db_aborted d"
    and "run_sql q ps (db_working d) = Inr (res, tabs)"
  shows "db_execute q ps d = (Inr res, d\<lparr>db_faults := tl (db_faults d), db_working := tabs\<rparr>)"
  using assms
  by (auto simp: db_execute_def Let_def split: list.splits option.splits)

lemma db_commit_ok:
  assumes "case db_faults d of Some e # rest \<Rightarrow> False | _ \<Rightarrow> True"
    and "\<not> db_aborted d"
  shows "db_commit d = (Inr (), d\<lparr>db_faults := tl (db_faults d), db_committed := db_working d\<rparr>)"
  using assms
  by (auto simp: db_commit_def Let_def split: list.splits option.splits)

lemma execute_commit_ok:
  assumes "placeholders q = length ps"
    and "list_all (\<lambda>f. f = None) (take 2 (db_faults (w_db w)))"
    and "\<not> db_aborted (w_db w)"
    and "run_sql q ps (db_working (w_db w)) = Inr (res, tabs)"
  shows "execute_commit q ps w =
           (Inr res, w\<lparr>w_db := (w_db w)\<lparr>db_faults := drop 2 (db_faults (w_db w)),
                                         db_working := tabs, db_committed := tabs\<rparr>\<rparr>)"
proof -
  note nf = no_fault_two[OF assms(2)]
  let ?d1 = "(w_db w)\<lparr>db_faults := tl (db_faults (w_db w)), db_working := tabs\<rparr>"
  have e: "db_execute q ps (w_db w) = (Inr res, ?d1)"
    using db_execute_ok[OF assms(1) _ assms(3,4)] nf by simp
  have c: "db_commit ?d1 =
      (Inr (), ?d1\<lparr>db_faults := tl (db_faults ?d1), db_committed := db_working ?d1\<rparr>)"
    using nf assms(3) by (intro db_commit_ok) simp_all
  show ?thesis
    using nf by (simp add: execute_commit_def e c)
qed

lemma insert_exam_ok_prelim:
  assumes "str_lower exam_type = ''prelim''"
    and "resolve (Bare (fmt (dm_table_name self))) = Some name"
    and "db_working (w_db w) name = Some t"
    and "t_columns t = [''course_code'', ''exam_date'', ''exam_locations'']"
    and "\<not> db_aborted (w_db w)"
    and "list_all (\<lambda>f. f = None) (take 2 (db_faults (w_db w)))"
  shows "insert_exam self (Some c) (Some dt) (Some l) exam_type time test_type w =
     (Inr True,
      print (''Success: Exam record inserted successfully.'', None)
        (w\<lparr>w_db := (w_db w)
              \<lparr>db_faults := drop 2 (db_faults (w_db w)),
               db_working := (db_working (w_db w))(name \<mapsto> append_rows t [[c, dt, l]]),
               db_committed := (db_working (w_db w))(name \<mapsto> append_rows t [[c, dt, l]])\<rparr>\<rparr>))"
proof -
  let ?q = "InsertInto (Bare (fmt (dm_table_name self)))
              [''course_code'', ''exam_date'', ''exam_locations''] 3"
  have run: "run_sql ?q [Some c, Some dt, Some l] (db_working (w_db w)) =
      Inr ([], (db_working (w_db w))(name \<mapsto> append_rows t [[c, dt, l]]))"
    unfolding append_rows_def
    by (rule run_sql_insert_prelim[where tabs = "db_working (w_db w)", OF assms(2,3,4)])
  have ph: "placeholders ?q = length [Some c, Some dt, Some l]" by (simp add: placeholders_def)
  note ec = execute_commit_ok[OF ph assms(6,5) run]
  show ?thesis
    by (simp add: insert_exam_def assms(1) str_lower_prelim generate_insert_exam_query_def ec
        except_OperationalError_Inr dm_success_response_def)
qed

lemma insert_exam_ok_final:
  assumes "str_lower exam_type = ''final''"
    and "resolve (Bare (fmt (dm_table_name self))) = Some name"
    and "db_working (w_db w) name = Some t"
    and "t_columns t = [''course_code'', ''exam_date'', ''exam_time'', ''exam_or_deliverable'',
                        ''exam_locations'']"
    and "\<not> db_aborted (w_db w)"
    and "list_all (\<lambda>f. f = None) (take 2 (db_faults (w_db w)))"
  shows "insert_exam self (Some c) (Some dt) (Some l) exam_type (Some tm) (Some ty) w =
     (Inr True,
      print (''Success: Exam record inserted successfully.'', None)
        (w\<lparr>w_db := (w_db w)
              \<lparr>db_faults := drop 2 (db_faults (w_db w)),
               db_working := (db_working (w_db w))(name \<mapsto> append_rows t [[c, dt, tm, ty, l]]),
               db_committed := (db_working (w_db w))(name \<mapsto> append_rows t [[c, dt, tm, ty, l]])\<rparr>\<rparr>))"
proof -
  let ?q = "InsertInto (Bare (fmt (dm_table_name self)))
              [''course_code'', ''exam_date'', ''exam_time'', ''exam_or_deliverable'',
               ''exam_locations''] 5"
  have run: "run_sql ?q [Some c, Some dt, Some tm, Some ty, Some l] (db_working (w_db w)) =
      Inr ([], (db_working (w_db w))(name \<mapsto> append_rows t [[c, dt, tm, ty, l]]))"
    unfolding append_rows_def
    by (rule run_sql_insert_final[where tabs = "db_working (w_db w)", OF assms(2,3,4)])
  have ph: "placeholders ?q = length [Some c, Some dt, Some tm, Some ty, Some l]"
    by (simp add: placeholders_def)
  note ec = execute_commit_ok[OF ph assms(6,5) run]
  have np: "''final'' \<noteq> ''prelim''" by simp
  show ?thesis
    by (simp add: insert_exam_def assms(1) str_lower_final generate_insert_exam_query_def ec
        except_OperationalError_Inr dm_success_response_def)
qed

lemma populate_rows_step:
  assumes "batch_ready self exam_type name t [d] w"
  shows "populate_rows self exam_type (d # rest) w =
         populate_rows self exam_type rest
           (print (''Success: Exam record inserted successfully.'', None)
              (w\<lparr>w_db := (w_db w)
                 \<lparr>db_faults := drop 2 (db_faults (w_db w)),
                  db_working := (db_working (w_db w))
                     (name \<mapsto> append_rows t [record_row exam_type d]),
                  db_committed := (db_working (w_db w))
                     (name \<mapsto> append_rows t [record_row exam_type d])\<rparr>\<rparr>))"
proof (cases "str_lower exam_type = ''final''")
  case True
  from assms True obtain c dt tm ty l where
    f: "map_of d ''course_code'' = Some c" "map_of d ''exam_date'' = Some dt"
       "map_of d ''exam_time'' = Some tm" "map_of d ''test_type'' = Some ty"
       "map_of d ''exam_locations'' = Some l"
    by (auto simp: batch_ready_def record_complete_def record_keys_def)
  have row: "record_row exam_type d = [c, dt, tm, ty, l]"
    by (simp add: record_row_def record_keys_def True f)
  have low: "str_lower (str_lower exam_type) = ''final''"
    by (simp add: True str_lower_final)
  have ins: "insert_exam self (Some c) (Some dt) (Some l) (str_lower exam_type) (Some tm) (Some ty) w
     = (Inr True,
        print (''Success: Exam record inserted successfully.'', None)
          (w\<lparr>w_db := (w_db w)
                \<lparr>db_faults := drop 2 (db_faults (w_db w)),
                 db_working := (db_working (w_db w))(name \<mapsto> append_rows t [[c, dt, tm, ty, l]]),
                 db_committed := (db_working (w_db w))(name \<mapsto> append_rows t [[c, dt, tm, ty, l]])\<rparr>\<rparr>))"
    using assms True
    by (intro insert_exam_ok_final[OF low]) (simp_all add: batch_ready_def insert_columns_def)
  show ?thesis
    by (simp add: True f row ins[unfolded True])
next
  case False
  with assms have pre: "str_lower exam_type = ''prelim''" by (simp add: batch_ready_def)
  from assms False obtain c dt l where
    f: "map_of d ''course_code'' = Some c" "map_of d ''exam_date'' = Some dt"
       "map_of d ''exam_locations'' = Some l"
    by (auto simp: batch_ready_def record_complete_def record_keys_def)
  have row: "record_row exam_type d = [c, dt, l]"
    by (simp add: record_row_def record_keys_def False f)
  have low: "str_lower (str_lower exam_type) = ''prelim''"
    by (simp add: pre str_lower_prelim)
  have ins: "insert_exam self (Some c) (Some dt) (Some l) (str_lower exam_type) None None w
     = (Inr True,
        print (''Success: Exam record inserted successfully.'', None)
          (w\<lparr>w_db := (w_db w)
                \<lparr>db_faults := drop 2 (db_faults (w_db w)),
                 db_working := (db_working (w_db w))(name \<mapsto> append_rows t [[c, dt, l]]),
                 db_committed := (db_working (w_db w))(name \<mapsto> append_rows t [[c, dt, l]])\<rparr>\<rparr>))"
    using assms False
    by (intro insert_exam_ok_prelim[OF low]) (simp_all add: batch_ready_def insert_columns_def)
  show ?thesis
    using False by (simp add: f row ins)
qed

lemma append_rows_Nil: "append_rows t [] = t"
  by (simp add: append_rows_def)

lemma append_rows_append: "append_rows (append_rows t a) b = append_rows t (a @ b)"
  by (simp add: append_rows_def)

lemma t_columns_append_rows: "t_columns (append_rows t rs) = t_columns t"
  by (simp add: append_rows_def)

lemma batch_ready_head:
  assumes "batch_ready self exam_type name t (d # good) w"
  shows "batch_ready self exam_type name t [d] w"
proof -
  have "take 2 (db_faults (w_db w)) = take 2 (take (2 * length (d # good)) (db_faults (w_db w)))"
    by (simp add: min_def)
  moreover have "list_all (\<lambda>f. f = None) (take (2 * length (d # good)) (db_faults (w_db w)))"
    using assms by (simp add: batch_ready_def)
  ultimately have "list_all (\<lambda>f. f = None) (take 2 (db_faults (w_db w)))"
    by (metis (no_types, lifting) in_set_takeD list_all_iff)
  with assms show ?thesis by (simp add: batch_ready_def)
qed

lemma batch_ready_tail:
  assumes "batch_ready self exam_type name t (d # good) w"
  shows "batch_ready self exam_type name (append_rows t [record_row exam_type d]) good
           (print l
              (w\<lparr>w_db := (w_db w)
                 \<lparr>db_faults := drop 2 (db_faults (w_db w)),
                  db_working := (db_working (w_db w))
                     (name \<mapsto> append_rows t [record_row exam_type d]),
                  db_committed := (db_working (w_db w))
                     (name \<mapsto> append_rows t [record_row exam_type d])\<rparr>\<rparr>))"
proof -
  have "take (2 * length good) (drop 2 (db_faults (w_db w)))
          = drop 2 (take (2 * length (d # good)) (db_faults (w_db w)))"
    by (simp add: drop_take)
  moreover have "list_all (\<lambda>f. f = None) (take (2 * length (d # good)) (db_faults (w_db w)))"
    using assms by (simp add: batch_ready_def)
  ultimately have "list_all (\<lambda>f. f = None) (take (2 * length good) (drop 2 (db_faults (w_db w))))"
    by (metis (no_types, lifting) in_set_dropD list_all_iff)
  with assms show ?thesis
    by (simp add: batch_ready_def w_db_print t_columns_append_rows)
qed

lemma populate_rows_prefix:
  assumes "batch_ready self exam_type name t good w"
  shows "\<exists>wk. populate_rows self exam_type (good @ rest) w = populate_rows self exam_type rest wk
           \<and> db_committed (w_db wk) name
               = Some (append_rows t (map (record_row exam_type) good))
           \<and> batch_ready self exam_type name
               (append_rows t (map (record_row exam_type) good)) [] wk
           \<and> db_faults (w_db wk) = drop (2 * length good) (db_faults (w_db w))
           \<and> w_files wk = w_files w"
  using assms
proof (induction good arbitrary: w t)
  case Nil
  then show ?case
    by (intro exI[of _ w]) (auto simp: append_rows_Nil batch_ready_def)
next
  case (Cons d good)
  let ?l = "(''Success: Exam record inserted successfully.'', None)"
  let ?t1 = "append_rows t [record_row exam_type d]"
  let ?w1 = "print ?l
              (w\<lparr>w_db := (w_db w)
                 \<lparr>db_faults := drop 2 (db_faults (w_db w)),
                  db_working := (db_working (w_db w))(name \<mapsto> ?t1),
                  db_committed := (db_working (w_db w))(name \<mapsto> ?t1)\<rparr>\<rparr>)"
  have step: "populate_rows self exam_type ((d # good) @ rest) w =
              populate_rows self exam_type (good @ rest) ?w1"
    using populate_rows_step[OF batch_ready_head[OF Cons.prems], of "good @ rest"] by simp
  have ready: "batch_ready self exam_type name ?t1 good ?w1"
    by (rule batch_ready_tail[OF Cons.prems])
  from Cons.IH[OF ready] obtain wk where
    wk: "populate_rows self exam_type (good @ rest) ?w1 = populate_rows self exam_type rest wk"
      "db_committed (w_db wk) name = Some (append_rows ?t1 (map (record_row exam_type) good))"
      "batch_ready self exam_type name (append_rows ?t1 (map (record_row exam_type) good)) [] wk"
      "db_faults (w_db wk) = drop (2 * length good) (db_faults (w_db ?w1))"
      "w_files wk = w_files ?w1"
    by blast
  show ?case
    using step wk
    by (intro exI[of _ wk]) (simp add: append_rows_append w_db_print print_def add.commute)
qed

lemma populate_rows_keeps_prefix:
  assumes "batch_ready self exam_type name t good w"
    and "populate_rows self exam_type (good @ rest) w = (r, w2)"
  shows "(\<exists>t'. db_committed (w_db w2) name = Some t'
               \<and> table_extends t' (append_rows t (map (record_row exam_type) good)))
         \<and> tables_extend (db_working (w_db w2)) (db_committed (w_db w2))"
proof -
  from populate_rows_prefix[OF assms(1), of rest] obtain wk where
    wk: "populate_rows self exam_type (good @ rest) w = populate_rows self exam_type rest wk"
      "db_committed (w_db wk) name = Some (append_rows t (map (record_row exam_type) good))"
      "batch_ready self exam_type name (append_rows t (map (record_row exam_type) good)) [] wk"
    by blast
  from wk(3) have inv: "tables_extend (db_working (w_db wk)) (db_committed (w_db wk))"
    by (simp add: batch_ready_def tables_extend_refl)
  from wk(1) assms(2) have "populate_rows self exam_type rest wk = (r, w2)" by simp
  from populate_rows_extends[OF this inv] wk(2)
  show ?thesis by (auto simp: tables_extend_def)
qed

lemma db_execute_failed_tables:
  assumes "db_execute q ps d = (Inl e, d')"
  shows "db_working d' = db_working d \<and> db_committed d' = db_committed d"
  using assms
  by (auto simp: db_execute_def Let_def
      split: if_splits list.splits option.splits sum.splits prod.splits)

lemma populate_exam_table_keeps_prefix:
  assumes "scrape_course_info (dm_scraper self) w = (scraped, scr, w1)"
    and "process_exam_data scr (ws_file_name scr) w1 = (Inr (Value (good @ rest)), w2)"
    and "create_exam_table (self\<lparr>dm_scraper := scr\<rparr>) semester (str_lower exam_type)
           (ws_year scr) w2 = (Inr created, self2, w3)"
    and "batch_ready self2 exam_type name t good w3"
    and "populate_exam_table self semester exam_type w = (r, self', w')"
  shows "\<exists>t'. db_committed (w_db w') name = Some t'
              \<and> table_extends t' (append_rows t (map (record_row exam_type) good))"
proof -
  obtain rr w5 where loop: "populate_rows self2 exam_type (good @ rest) w3 = (rr, w5)"
    by (cases "populate_rows self2 exam_type (good @ rest) w3") auto
  from populate_rows_keeps_prefix[OF assms(4) loop] obtain t5 where
    t5: "db_committed (w_db w5) name = Some t5"
        "table_extends t5 (append_rows t (map (record_row exam_type) good))"
    and inv: "tables_extend (db_working (w_db w5)) (db_committed (w_db w5))"
    by blast
  obtain rc d where co: "db_commit (w_db w5) = (rc, d)"
    by (cases "db_commit (w_db w5)") auto
  have ext: "tables_extend (db_committed d) (db_committed (w_db w5))"
    using db_commit_extends[OF co inv] by simp
  have "w_db w' = w_db w5 \<or> w_db w' = d"
    using assms(1,2,3,5) loop co
    by (auto simp: populate_exam_table_def except_OperationalError_def dm_error_response_def
        dm_success_response_def w_db_print Let_def
        split: sum.splits if_splits prod.splits)
  then show ?thesis
  proof
    assume "w_db w' = w_db w5"
    with t5 show ?thesis by auto
  next
    assume "w_db w' = d"
    with ext t5 obtain t' where "db_committed (w_db w') name = Some t'" "table_extends t' t5"
      by (auto simp: tables_extend_def)
    with t5(2) show ?thesis by (auto intro: table_extends_trans)
  qed
qed

lemma create_exam_table_done:
  assumes "create_exam_table self semester exam_type year w = (Inr True, self2, w3)"
  shows "db_committed (w_db w3) = db_working (w_db w3) \<and> \<not> db_aborted (w_db w3)"
proof -
  let ?name = "semester @ ''_'' @ fmt year @ ''_'' @ exam_type @ ''_exams''"
  obtain q where q: "generate_create_table_query ?name exam_type = Inr q"
    using assms
    by (cases "generate_create_table_query ?name exam_type")
      (auto simp: create_exam_table_def set_exam_table_name_def fmt_def Let_def
        except_OperationalError_Inl split: if_splits)
  obtain re w5 where ec: "execute_commit q [] w = (re, w5)"
    by (cases "execute_commit q [] w") auto
  from assms q ec obtain res where "re = Inr res" "w_db w3 = w_db w5"
    by (cases re)
      (auto simp: create_exam_table_def set_exam_table_name_def fmt_def Let_def
        except_OperationalError_Inl except_OperationalError_Inr dm_success_response_def
        dm_error_response_def w_db_print split: if_splits)
  with ec execute_commit_done[of q "[]" w res w5] show ?thesis by simp
qed

text \<open>
  C5 (amended).  \<^verbatim>\<open>populate_exam_table\<close> inserts the rows one by one, in order, and
  there is no transaction around the batch: \<^verbatim>\<open>insert_exam\<close> commits after each row.
  As long as the database calls succeed, each row is committed by its own
  \<^verbatim>\<open>insert_exam\<close> before the next row is tried: after the first rows \<open>good\<close> of a
  batch \<open>good @ rest\<close> exactly their rows have been appended to the committed table,
  and they stay in it whatever the rest of the batch and the last commit of
  \<^verbatim>\<open>populate_exam_table\<close> do, since committed tables only grow.  When \<^verbatim>\<open>insert_exam\<close>
  returns \<^verbatim>\<open>True\<close> nothing is left pending, and for a prelim the new row stands in the
  committed table.  When the server answers a row's \<^verbatim>\<open>execute\<close> with
  \<^verbatim>\<open>OperationalError\<close>, \<^verbatim>\<open>insert_exam\<close> catches it, prints it and returns \<^verbatim>\<open>False\<close>,
  and no table, committed or pending, has changed.
\<close>

theorem rows_committed_one_by_one:
  "(insert_exam self code date locations exam_type time test_type w = (Inr True, w1) \<longrightarrow>
      db_committed (w_db w1) = db_working (w_db w1) \<and> \<not> db_aborted (w_db w1)) \<and>
   (str_lower exam_type = ''prelim'' \<longrightarrow>
    resolve (Bare (fmt (dm_table_name self))) = Some name \<longrightarrow>
    db_working (w_db w) name = Some t \<longrightarrow>
    t_columns t = [''course_code'', ''exam_date'', ''exam_locations''] \<longrightarrow>
    insert_exam self (Some c) (Some dt) (Some l) exam_type time test_type w = (Inr True, w1) \<longrightarrow>
      db_committed (w_db w1) name = Some (t\<lparr>t_rows := t_rows t @ [[c, dt, l]]\<rparr>)) \<and>
   (str_lower exam_type \<in> {''prelim'', ''final''} \<longrightarrow>
    generate_insert_exam_query (fmt (dm_table_name self)) (str_lower exam_type) = Inr q \<longrightarrow>
    db_execute q
      (if str_lower exam_type = ''prelim'' then [code, date, locations]
       else [code, date, time, test_type, locations])
      (w_db w) = (Inl OperationalError, d) \<longrightarrow>
      insert_exam self code date locations exam_type time test_type w =
        (Inr False,
         print (''Error: Error inserting exam record: '', Some OperationalError) (w\<lparr>w_db := d\<rparr>))
      \<and> db_committed d = db_committed (w_db w) \<and> db_working d = db_working (w_db w)) \<and>
   (batch_ready self exam_type name t good w \<longrightarrow>
      (\<exists>wk. populate_rows self exam_type (good @ rest) w = populate_rows self exam_type rest wk
            \<and> db_committed (w_db wk) name
                = Some (append_rows t (map (record_row exam_type) good))
            \<and> db_working (w_db wk) = db_committed (w_db wk)
            \<and> \<not> db_aborted (w_db wk)
            \<and> db_faults (w_db wk) = drop (2 * length good) (db_faults (w_db w)))) \<and>
   (batch_ready self exam_type name t good w \<longrightarrow>
    populate_rows self exam_type (good @ rest) w = (r, w2) \<longrightarrow>
      (\<exists>t'. db_committed (w_db w2) name = Some t'
            \<and> table_extends t' (append_rows t (map (record_row exam_type) good)))) \<and>
   (scrape_course_info (dm_scraper self) w = (scraped, scr, w1) \<longrightarrow>
    process_exam_data scr (ws_file_name scr) w1 = (Inr (Value (good @ rest)), w2) \<longrightarrow>
    create_exam_table (self\<lparr>dm_scraper := scr\<rparr>) semester (str_lower exam_type)
      (ws_year scr) w2 = (Inr created, self2, w3) \<longrightarrow>
    batch_ready self2 exam_type name t good w3 \<longrightarrow>
    populate_exam_table self semester exam_type w = (rp, self', wp) \<longrightarrow>
      (\<exists>t'. db_committed (w_db wp) name = Some t'
            \<and> table_extends t' (append_rows t (map (record_row exam_type) good)))) \<and>
   (populate_rows self exam_type exams_data w = (r, w2) \<longrightarrow>
    tables_extend (db_working (w_db w)) (db_committed (w_db w)) \<longrightarrow>
      tables_extend (db_committed (w_db w2)) (db_committed (w_db w))
      \<and> tables_extend (db_working (w_db w2)) (db_committed (w_db w2)))"
proof (intro conjI impI)
  assume "insert_exam self code date locations exam_type time test_type w = (Inr True, w1)"
  from insert_exam_done[OF this]
  show "db_committed (w_db w1) = db_working (w_db w1)" and "\<not> db_aborted (w_db w1)"
    by simp_all
next
  assume "str_lower exam_type = ''prelim''"
    and "resolve (Bare (fmt (dm_table_name self))) = Some name"
    and "db_working (w_db w) name = Some t"
    and "t_columns t = [''course_code'', ''exam_date'', ''exam_locations'']"
    and "insert_exam self (Some c) (Some dt) (Some l) exam_type time test_type w = (Inr True, w1)"
  then show "db_committed (w_db w1) name = Some (t\<lparr>t_rows := t_rows t @ [[c, dt, l]]\<rparr>)"
    by (rule insert_exam_prelim_row)
next
  assume a: "str_lower exam_type \<in> {''prelim'', ''final''}"
    "generate_insert_exam_query (fmt (dm_table_name self)) (str_lower exam_type) = Inr q"
    "db_execute q
      (if str_lower exam_type = ''prelim'' then [code, date, locations]
       else [code, date, time, test_type, locations])
      (w_db w) = (Inl OperationalError, d)"
  from insert_exam_operational_error[OF a]
  show "insert_exam self code date locations exam_type time test_type w =
        (Inr False,
         print (''Error: Error inserting exam record: '', Some OperationalError) (w\<lparr>w_db := d\<rparr>))"
    and "db_committed d = db_committed (w_db w)"
    by simp_all
  from db_execute_failed_tables[OF a(3)]
  show "db_working d = db_working (w_db w)" by simp
next
  assume "batch_ready self exam_type name t good w"
  from populate_rows_prefix[OF this, of rest]
  show "\<exists>wk. populate_rows self exam_type (good @ rest) w = populate_rows self exam_type rest wk
            \<and> db_committed (w_db wk) name
                = Some (append_rows t (map (record_row exam_type) good))
            \<and> db_working (w_db wk) = db_committed (w_db wk)
            \<and> \<not> db_aborted (w_db wk)
            \<and> db_faults (w_db wk) = drop (2 * length good) (db_faults (w_db w))"
    by (auto simp: batch_ready_def)
next
  assume "batch_ready self exam_type name t good w"
    and "populate_rows self exam_type (good @ rest) w = (r, w2)"
  from populate_rows_keeps_prefix[OF this]
  show "\<exists>t'. db_committed (w_db w2) name = Some t'
            \<and> table_extends t' (append_rows t (map (record_row exam_type) good))"
    by simp
next
  assume "scrape_course_info (dm_scraper self) w = (scraped, scr, w1)"
    and "process_exam_data scr (ws_file_name scr) w1 = (Inr (Value (good @ rest)), w2)"
    and "create_exam_table (self\<lparr>dm_scraper := scr\<rparr>) semester (str_lower exam_type)
      (ws_year scr) w2 = (Inr created, self2, w3)"
    and "batch_ready self2 exam_type name t good w3"
    and "populate_exam_table self semester exam_type w = (rp, self', wp)"
  then show "\<exists>t'. db_committed (w_db wp) name = Some t'
            \<and> table_extends t' (append_rows t (map (record_row exam_type) good))"
    by (rule populate_exam_table_keeps_prefix)
next
  assume "populate_rows self exam_type exams_data w = (r, w2)"
    and "tables_extend (db_working (w_db w)) (db_committed (w_db w))"
  from populate_rows_extends[OF this]
  show "tables_extend (db_committed (w_db w2)) (db_committed (w_db w))"
    and "tables_extend (db_working (w_db w2)) (db_committed (w_db w2))"
    by simp_all
qed

text \<open>
  C5 with the batch as one transaction does not hold.  Here the second of two rows
  fails with \<^verbatim>\<open>OperationalError\<close>: the first row is committed, the second is not, and
  \<^verbatim>\<open>populate_exam_table\<close> returns \<^verbatim>\<open>True\<close>.
\<close>

theorem batch_not_atomic_counterexample:
  "fst (populate_exam_table (example_manager ''fall'' ''prelim'') ''fall'' ''prelim''
          (example_world ''fall 2024 prelim exams''
             [None, None, None, None, Some OperationalError])) = Inr True \<and>
   db_committed (w_db (snd (snd (populate_exam_table (example_manager ''fall'' ''prelim'')
          ''fall'' ''prelim''
          (example_world ''fall 2024 prelim exams''
             [None, None, None, None, Some OperationalError])))))
       ''fall_2024_prelim_exams''
     = Some \<lparr>t_columns = [''course_code'', ''exam_date'', ''exam_locations''],
             t_rows = [[''CS 2110'', ''10/15'', ''Statler Hall'']]\<rparr>"
  by code_simp

text \<open>
  One insert into the empty prelim table, one on which the server fails, and a batch of
  two rows whose second row fails: in the loop alone and in the whole of
  \<^verbatim>\<open>populate_exam_table\<close> on the example page, the first row is committed.
\<close>

theorem rows_committed_one_by_one_witness:
  "fst (insert_exam prelim_manager (Some ''CS 2110'') (Some ''10/15'') (Some ''Statler Hall'')
          ''prelim'' None None (prelim_world [])) = Inr True \<and>
   db_committed (w_db (snd (insert_exam prelim_manager (Some ''CS 2110'') (Some ''10/15'')
          (Some ''Statler Hall'') ''prelim'' None None (prelim_world []))))
       ''fall_2024_prelim_exams''
     = Some \<lparr>t_columns = [''course_code'', ''exam_date'', ''exam_locations''],
             t_rows = [[''CS 2110'', ''10/15'', ''Statler Hall'']]\<rparr> \<and>
   insert_exam prelim_manager (Some ''CS 3110'') (Some ''10/17'') (Some ''Olin Hall'')
       ''prelim'' None None (prelim_world [Some OperationalError])
     = (Inr False,
        print (''Error: Error inserting exam record: '', Some OperationalError)
          ((prelim_world [Some OperationalError])
             \<lparr>w_db := (prelim_database [])\<lparr>db_aborted := True\<rparr>\<rparr>)) \<and>
   batch_ready prelim_manager ''prelim'' ''fall_2024_prelim_exams''
     \<lparr>t_columns = [''course_code'', ''exam_date'', ''exam_locations''], t_rows = []\<rparr>
     [[(''course_code'', ''CS 2110''), (''exam_date'', ''10/15''),
       (''exam_locations'', ''Statler Hall'')]]
     (prelim_world [None, None, Some OperationalError]) \<and>
   (\<exists>wk. populate_rows prelim_manager ''prelim''
            [[(''course_code'', ''CS 2110''), (''exam_date'', ''10/15''),
              (''exam_locations'', ''Statler Hall'')],
             [(''course_code'', ''CS 3110''), (''exam_date'', ''10/17''),
              (''exam_locations'', ''Olin Hall'')]]
            (prelim_world [None, None, Some OperationalError])
          = populate_rows prelim_manager ''prelim''
              [[(''course_code'', ''CS 3110''), (''exam_date'', ''10/17''),
                (''exam_locations'', ''Olin Hall'')]] wk
        \<and> db_committed (w_db wk) ''fall_2024_prelim_exams''
            = Some \<lparr>t_columns = [''course_code'', ''exam_date'', ''exam_locations''],
                    t_rows = [[''CS 2110'', ''10/15'', ''Statler Hall'']]\<rparr>
        \<and> db_faults (w_db wk) = [Some OperationalError]) \<and>
   (\<exists>t'. db_committed (w_db (snd (snd (populate_exam_table (example_manager ''fall'' ''prelim'')
             ''fall'' ''prelim''
             (example_world ''fall 2024 prelim exams''
                [None, None, None, None, Some OperationalError])))))
           ''fall_2024_prelim_exams'' = Some t'
        \<and> table_extends t'
            \<lparr>t_columns = [''course_code'', ''exam_date'', ''exam_locations''],
             t_rows = [[''CS 2110'', ''10/15'', ''Statler Hall'']]\<rparr>)"
proof -
  let ?t = "\<lparr>t_columns = [''course_code'', ''exam_date'', ''exam_locations''], t_rows = []\<rparr>"
  let ?t1 = "\<lparr>t_columns = [''course_code'', ''exam_date'', ''exam_locations''],
              t_rows = [[''CS 2110'', ''10/15'', ''Statler Hall'']]\<rparr>"
  let ?name = "''fall_2024_prelim_exams''"
  let ?row1 = "[(''course_code'', ''CS 2110''), (''exam_date'', ''10/15''),
                (''exam_locations'', ''Statler Hall'')]"
  let ?row2 = "[(''course_code'', ''CS 3110''), (''exam_date'', ''10/17''),
                (''exam_locations'', ''Olin Hall'')]"
  let ?ins = "insert_exam prelim_manager (Some ''CS 2110'') (Some ''10/15'') (Some ''Statler Hall'')
                ''prelim'' None None (prelim_world [])"
  let ?q = "InsertInto (Bare ''fall_2024_prelim_exams'')
              [''course_code'', ''exam_date'', ''exam_locations''] 3"
  note main = rows_committed_one_by_one
  \<comment> \<open>one insert\<close>
  have ok: "fst ?ins = Inr True" by code_simp
  then have ins: "?ins = (Inr True, snd ?ins)" by (metis prod.collapse)
  have res: "resolve (Bare (fmt (dm_table_name prelim_manager))) = Some ?name"
    by code_simp
  have tab: "db_working (w_db (prelim_world fs)) ?name = Some ?t" for fs
    by (simp add: prelim_world_def prelim_database_def)
  have cols: "t_columns ?t = [''course_code'', ''exam_date'', ''exam_locations'']" by simp
  have a: "db_committed (w_db (snd ?ins)) ?name
             = Some (?t\<lparr>t_rows := t_rows ?t @ [[''CS 2110'', ''10/15'', ''Statler Hall'']]\<rparr>)"
    by (rule main[THEN conjunct2, THEN conjunct1, rule_format,
          OF str_lower_prelim res tab cols ins])
  \<comment> \<open>one insert that the server fails\<close>
  have ty: "str_lower ''prelim'' \<in> {''prelim'', ''final''}" by (simp add: str_lower_prelim)
  have gen: "generate_insert_exam_query (fmt (dm_table_name prelim_manager)) (str_lower ''prelim'')
               = Inr ?q"
    by (simp add: generate_insert_exam_query_def fmt_def str_lower_prelim prelim_manager_def)
  have ex: "db_execute ?q
      (if str_lower ''prelim'' = ''prelim''
       then [Some ''CS 3110'', Some ''10/17'', Some ''Olin Hall'']
       else [Some ''CS 3110'', Some ''10/17'', None, None, Some ''Olin Hall''])
      (w_db (prelim_world [Some OperationalError]))
      = (Inl OperationalError, (prelim_database [])\<lparr>db_aborted := True\<rparr>)"
    by (simp add: str_lower_prelim db_execute_def placeholders_def prelim_world_def
        prelim_database_def)
  note b = main[THEN conjunct2, THEN conjunct2, THEN conjunct1, rule_format,
          OF ty gen ex, THEN conjunct1]
  \<comment> \<open>the loop on two rows, the second of which fails\<close>
  have icols: "insert_columns ''prelim'' = [''course_code'', ''exam_date'', ''exam_locations'']"
    by code_simp
  have comp: "list_all (record_complete ''prelim'') [?row1]" by code_simp
  have rows: "append_rows ?t (map (record_row ''prelim'') [?row1]) = ?t1" by code_simp
  have ready: "batch_ready prelim_manager ''prelim'' ?name ?t [?row1]
                 (prelim_world [None, None, Some OperationalError])"
    using ty res comp
    by (simp add: batch_ready_def icols tab)
       (simp add: prelim_world_def prelim_database_def)
  have c: "\<exists>wk. populate_rows prelim_manager ''prelim'' ([?row1] @ [?row2])
                   (prelim_world [None, None, Some OperationalError])
                 = populate_rows prelim_manager ''prelim'' [?row2] wk
            \<and> db_committed (w_db wk) ?name = Some (append_rows ?t (map (record_row ''prelim'') [?row1]))
            \<and> db_working (w_db wk) = db_committed (w_db wk)
            \<and> \<not> db_aborted (w_db wk)
            \<and> db_faults (w_db wk)
                = drop (2 * length [?row1])
                    (db_faults (w_db (prelim_world [None, None, Some OperationalError])))"
    by (rule main[THEN conjunct2, THEN conjunct2, THEN conjunct2, THEN conjunct1, rule_format,
          OF ready])
  have fs: "drop (2 * length [?row1])
              (db_faults (w_db (prelim_world [None, None, Some OperationalError])))
            = [Some OperationalError]"
    by (simp add: prelim_world_def prelim_database_def)
  from c have c': "\<exists>wk. populate_rows prelim_manager ''prelim'' [?row1, ?row2]
                   (prelim_world [None, None, Some OperationalError])
                 = populate_rows prelim_manager ''prelim'' [?row2] wk
            \<and> db_committed (w_db wk) ?name = Some ?t1
            \<and> db_faults (w_db wk) = [Some OperationalError]"
    unfolding rows fs by auto
  \<comment> \<open>the whole of populate on the example page\<close>
  let ?m = "example_manager ''fall'' ''prelim''"
  let ?w = "example_world ''fall 2024 prelim exams'' [None, None, None, None, Some OperationalError]"
  let ?s = "scrape_course_info (dm_scraper ?m) ?w"
  let ?scr = "fst (snd ?s)"
  let ?p = "process_exam_data ?scr (ws_file_name ?scr) (snd (snd ?s))"
  let ?c = "create_exam_table (?m\<lparr>dm_scraper := ?scr\<rparr>) ''fall'' (str_lower ''prelim'')
              (ws_year ?scr) (snd ?p)"
  let ?self2 = "fst (snd ?c)"
  let ?w3 = "snd (snd ?c)"
  let ?pop = "populate_exam_table ?m ''fall'' ''prelim'' ?w"
  have h1: "?s = (fst ?s, ?scr, snd (snd ?s))" by simp
  have p1: "fst ?p = Inr (Value ([?row1] @ [?row2]))" by code_simp
  then have h2: "?p = (Inr (Value ([?row1] @ [?row2])), snd ?p)" by (metis prod.collapse)
  have c1: "fst ?c = Inr True" by code_simp
  then have h3: "?c = (Inr True, ?self2, ?w3)" by (metis prod.collapse)
  have r1: "resolve (Bare (fmt (dm_table_name ?self2))) = Some ?name" by code_simp
  have r2: "db_working (w_db ?w3) ?name = Some ?t" by code_simp
  have r3: "list_all (\<lambda>f. f = None) (take (2 * length [?row1]) (db_faults (w_db ?w3)))"
    by code_simp
  note r4 = create_exam_table_done[OF h3]
  have ready3: "batch_ready ?self2 ''prelim'' ?name ?t [?row1] ?w3"
    unfolding batch_ready_def
    using ty r1 r2 r3 r4 comp by (simp add: icols)
  have h5: "?pop = (fst ?pop, fst (snd ?pop), snd (snd ?pop))" by simp
  have e: "\<exists>t'. db_committed (w_db (snd (snd ?pop))) ?name = Some t'
            \<and> table_extends t' (append_rows ?t (map (record_row ''prelim'') [?row1]))"
    by (rule main[THEN conjunct2, THEN conjunct2, THEN conjunct2, THEN conjunct2, THEN conjunct2,
          THEN conjunct1, rule_format, OF h1 h2 h3 ready3 h5])
  show ?thesis
    using ok a b ready c' e[unfolded rows] by simp
qed

section \<open>The round trip through the store\<close>

lemma prelim_round_trip_example:
  "(case create_exam_table (example_manager ''fall'' ''prelim'') ''fall'' ''prelim'' (Some ''2024'')
           (example_world ''fall 2024 prelim exams'' []) of
      (created, m1, w1) \<Rightarrow>
        (case populate_exam_table m1 ''fall'' ''prelim'' w1 of
           (populated, m2, w2) \<Rightarrow>
             (created, populated, fst (fetch_exam m2 ''CS 2110'' ''prelim'' w2))))
   = (Inr True, Inr True,
      Inr (Value [[(''course_code'', ''CS 2110''), (''exam_date'', ''10/15''),
                   (''exam_locations'', ''Statler Hall'')]]))"
  by code_simp

text \<open>
  C3.  The round trip holds for a prelim (above) and fails for a final.  The listing of a
  final parses to its five fields, but \<^verbatim>\<open>CREATE TABLE\<close> for finals lacks a comma and is
  rejected, so \<^verbatim>\<open>create_exam_table\<close> and \<^verbatim>\<open>populate_exam_table\<close> raise
  \<^verbatim>\<open>ProgrammingError\<close> and no table exists afterwards; and on a table that has the five
  columns of the records, \<^verbatim>\<open>insert_exam\<close> names the column \<^verbatim>\<open>exam_or_deliverable\<close>,
  which the table does not have, and inserts nothing.
\<close>

theorem final_round_trip_fails:
  "fst (process_exam_data (example_scraper ''fall'' ''final'') (Some ''fall-2024-final-exams.txt'')
          (snd (snd (scrape_course_info (example_scraper ''fall'' ''final'') (final_world [])))))
     = Inr (Value [[(''course_code'', ''CS 2110 001''), (''exam_date'', ''12/14''),
                    (''exam_time'', ''9:00 AM''), (''test_type'', ''in person''),
                    (''exam_locations'', ''Barton Hall'')]]) \<and>
   fst (create_exam_table (example_manager ''fall'' ''final'') ''fall'' ''final'' (Some ''2024'')
          (final_world [])) = Inl ProgrammingError \<and>
   fst (populate_exam_table (example_manager ''fall'' ''final'') ''fall'' ''final'' (final_world []))
     = Inl ProgrammingError \<and>
   db_committed (w_db (snd (snd (populate_exam_table (example_manager ''fall'' ''final'')
          ''fall'' ''final'' (final_world []))))) ''fall_2024_final_exams'' = None \<and>
   fst (insert_exam final_manager (Some ''CS 2110 001'') (Some ''12/14'') (Some ''Barton Hall'')
          ''final'' (Some ''9:00 AM'') (Some ''in person'') (final_table_world []))
     = Inl ProgrammingError \<and>
   db_committed (w_db (snd (insert_exam final_manager (Some ''CS 2110 001'') (Some ''12/14'')
          (Some ''Barton Hall'') ''final'' (Some ''9:00 AM'') (Some ''in person'')
          (final_table_world [])))) ''fall_2024_final_exams''
     = Some \<lparr>t_columns = [''course_code'', ''exam_date'', ''exam_time'', ''test_type'',
                           ''exam_locations''],
             t_rows = []\<rparr>"
  by code_simp

lemma final_create_statement_rejected:
  assumes "str_lower exam_type = ''final''"
  shows "\<exists>q. generate_create_table_query name exam_type = Inr q
             \<and> run_sql q [] tabs = Inl ProgrammingError"
  using assms
  by (simp add: generate_create_table_query_def run_sql_def column_of_definition_def Let_def
      split: option.splits)

lemma final_insert_statement_rejected:
  assumes "str_lower exam_type = ''final''" and "resolve (Bare name) = Some n"
    and "tabs n = Some t" and "''exam_or_deliverable'' \<notin> set (t_columns t)"
  shows "\<exists>q. generate_insert_exam_query name exam_type = Inr q
             \<and> run_sql q ps tabs = Inl ProgrammingError"
proof -
  have l: "str_lower ''exam_or_deliverable'' = ''exam_or_deliverable''" by code_simp
  show ?thesis
    using assms
    by (auto simp: generate_insert_exam_query_def run_sql_def Let_def l)
qed

end
